theory Spec2Isabelle
  imports Complex_Main
begin

section \<open>The AutoML sparse-data notebook as a sequential program\<close>

text \<open>
  The repository is one Jupyter notebook, \<^verbatim>\<open>automl/06.auto-ml-sparse-data-custom-cv-split.ipynb\<close>.
  Its code cells are modelled in the order in which they appear, as computations that log
  every call into an external library and stop at the first exception.
\<close>

subsection \<open>Exceptions and Python values\<close>

text \<open>
  \<open>KeyError\<close>, \<open>ValueError\<close> and \<open>IndexError\<close> are what the notebook's own subscripting and
  \<^verbatim>\<open>int()\<close> raise; \<open>LibraryError\<close> stands for any exception object an external library
  raises, named by its text.
\<close>

datatype exn = KeyError string | ValueError string | IndexError | LibraryError string

text \<open>
  A logged metric value. \<open>PyFloat m e\<close> is the float \<open>m * 2 ^ e\<close>; the notebook inspects
  only the type tag (\<^verbatim>\<open>isinstance(v, float)\<close>).
\<close>

datatype pyval =
    PyFloat int int
  | PyInt int
  | PyBool bool
  | PyStr string
  | PyNone
  | PyList "pyval list"

fun isinstance_float :: "pyval \<Rightarrow> bool" where
  "isinstance_float (PyFloat m e) = True"
| "isinstance_float v = False"

subsection \<open>Subscripting\<close>

text \<open>\<^verbatim>\<open>xs[i]\<close> on a Python list: a negative index counts from the end, anything else out of
  range raises IndexError.\<close>

definition list_getitem :: "'a list \<Rightarrow> int \<Rightarrow> exn + 'a" where
  "list_getitem xs i =
     (if 0 \<le> i \<and> i < int (length xs) then Inr (xs ! nat i)
      else if i < 0 \<and> - int (length xs) \<le> i then Inr (xs ! nat (int (length xs) + i))
      else Inl IndexError)"

text \<open>\<^verbatim>\<open>d[k]\<close> on a dict, the dict given by its items in insertion order.\<close>

definition dict_getitem :: "(string \<times> 'v) list \<Rightarrow> string \<Rightarrow> exn + 'v" where
  "dict_getitem d k = (case map_of d k of None \<Rightarrow> Inl (KeyError k) | Some v \<Rightarrow> Inr v)"

text \<open>\<^verbatim>\<open>d[k] = v\<close>: an existing key keeps its place and takes the new value, a new key is
  appended.\<close>

fun dict_setitem :: "('k \<times> 'v) list \<Rightarrow> 'k \<Rightarrow> 'v \<Rightarrow> ('k \<times> 'v) list" where
  "dict_setitem [] k v = [(k, v)]"
| "dict_setitem ((k', v') # d) k v =
     (if k' = k then (k, v) # d else (k', v') # dict_setitem d k v)"

subsection \<open>The category list and the label comprehensions\<close>

definition categories :: "string list" where
  "categories = [''alt.atheism'', ''talk.religion.misc'', ''comp.graphics'', ''sci.space'']"

text \<open>\<^verbatim>\<open>[categories[i] for i in ys]\<close>, used for \<open>ypred\<close> and for \<open>y_test\<close>: the first failing
  lookup ends the comprehension.\<close>

fun label_strings :: "int list \<Rightarrow> exn + string list" where
  "label_strings [] = Inr []"
| "label_strings (i # ys) =
     (case list_getitem categories i of
        Inl e \<Rightarrow> Inl e
      | Inr s \<Rightarrow> (case label_strings ys of Inl e \<Rightarrow> Inl e | Inr ss \<Rightarrow> Inr (s # ss)))"


subsection \<open>Data passed to and returned from the external libraries\<close>

record workspace =
  ws_name :: string
  subscription_id :: string
  resource_group :: string
  location :: string

record experiment_handle =
  exp_name :: string
  exp_workspace :: workspace

text \<open>The \<^verbatim>\<open>Bunch\<close> returned by \<^verbatim>\<open>fetch_20newsgroups\<close>: \<^verbatim>\<open>.data\<close> and \<^verbatim>\<open>.target\<close>.\<close>

record bunch =
  data :: "string list"
  target :: "int list"

record fetch_args =
  fetch_subset :: string
  fetch_categories :: "string list"
  fetch_shuffle :: bool
  fetch_random_state :: int
  fetch_remove :: "string list"

text \<open>A sparse matrix: its column count and, per row, the non-zero entries.\<close>

type_synonym sparse_row = "(nat \<times> real) list"

record csr_matrix =
  n_cols :: nat
  rows :: "sparse_row list"

definition shape :: "csr_matrix \<Rightarrow> nat \<times> nat" where
  "shape m = (length (rows m), n_cols m)"

record hashing_params =
  stop_words :: string
  alternate_sign :: bool
  n_features :: nat

text \<open>A \<^verbatim>\<open>HashingVectorizer\<close> object holds nothing but its constructor parameters.\<close>

record hashing_vectorizer =
  vec_params :: hashing_params

text \<open>The keyword arguments of the \<^verbatim>\<open>AutoMLConfig(...)\<close> call, one field per keyword
  (\<open>cfg_X\<close> is \<^verbatim>\<open>X\<close>, \<open>cfg_y\<close> is \<^verbatim>\<open>y\<close>, and so on).\<close>

record automl_settings =
  task :: string
  debug_log :: string
  primary_metric :: string
  max_time_sec :: int
  iterations :: int
  preprocess :: bool
  verbosity :: int
  cfg_X :: csr_matrix
  cfg_y :: "int list"
  cfg_X_valid :: csr_matrix
  cfg_y_valid :: "int list"
  cfg_path :: string

record automl_config =
  settings :: automl_settings

text \<open>
  What the service returns. A record's method is modelled by the answer the method gives
  when the notebook calls it: \<open>get_properties\<close> and \<open>get_metrics\<close> of a child run,
  \<open>predict\<close> of the fitted pipeline, and \<open>get_children\<close>, \<open>get_output\<close>,
  \<open>register_model\<close> and the attribute \<open>model_id\<close> of the parent run.
\<close>

record child_run =
  child_id :: string
  get_properties :: "exn + (string \<times> string) list"
  get_metrics :: "exn + (string \<times> pyval) list"

datatype fitted_model = FittedModel (predict: "csr_matrix \<Rightarrow> exn + int list")

record run =
  run_id :: string
  get_children :: "exn + child_run list"
  get_output :: "exn + child_run \<times> fitted_model"
  register_model :: "string \<Rightarrow> (string \<times> string) list option \<Rightarrow> exn + unit"
  model_id :: string

record confusion_matrix =
  cm_true :: "string list"
  cm_pred :: "string list"

text \<open>What a cell renders: the tables built with pandas and the value of a cell's last
  expression.\<close>

datatype display_item =
    D_output "(string \<times> string) list"
  | D_summary "nat \<times> nat" "nat \<times> nat"
  | D_rundata "(int \<times> (string \<times> pyval) list) list"
  | D_model_id string

subsection \<open>The external libraries\<close>

text \<open>
  None of the code of azureml, scikit-learn, pandas or pandas_ml is in the repository, so
  each function the notebook calls is a parameter: a field of \<open>world\<close> giving, for the
  arguments of a call, the exception it raises or the value it returns. \<open>py_int\<close> is the
  builtin \<^verbatim>\<open>int()\<close> on a string, \<open>None\<close> when it raises ValueError. A field being a
  function, a library function answers the same to the same arguments; the notebook
  repeats a call with its arguments only when it constructs its second vectorizer. What
  the service holds and may change is in the records it returns, above.
\<close>

record world =
  VERSION :: string
  Workspace_from_config :: "exn + workspace"
  Experiment :: "workspace \<Rightarrow> string \<Rightarrow> exn + experiment_handle"
  pd_set_option :: "string \<Rightarrow> int \<Rightarrow> exn + unit"
  display :: "display_item \<Rightarrow> exn + unit"
  set_diagnostics_collection :: "bool \<Rightarrow> exn + unit"
  fetch_20newsgroups :: "fetch_args \<Rightarrow> exn + bunch"
  train_test_split ::
    "string list \<Rightarrow> int list \<Rightarrow> real \<Rightarrow> int \<Rightarrow>
       exn + string list \<times> string list \<times> int list \<times> int list"
  HashingVectorizer :: "hashing_params \<Rightarrow> exn + hashing_vectorizer"
  transform :: "hashing_vectorizer \<Rightarrow> string list \<Rightarrow> exn + csr_matrix"
  AutoMLConfig :: "automl_settings \<Rightarrow> exn + automl_config"
  submit :: "experiment_handle \<Rightarrow> automl_config \<Rightarrow> bool \<Rightarrow> exn + run"
  RunDetails_show :: "run \<Rightarrow> exn + unit"
  py_int :: "string \<Rightarrow> int option"
  load_digits :: "exn + unit"
  ConfusionMatrix :: "string list \<Rightarrow> string list \<Rightarrow> exn + confusion_matrix"
  print_cm :: "confusion_matrix \<Rightarrow> exn + unit"
  cm_plot :: "confusion_matrix \<Rightarrow> exn + unit"

subsection \<open>The log of external calls\<close>

datatype call =
    C_from_config
  | C_Experiment workspace string
  | C_set_option string int
  | C_display display_item
  | C_set_diagnostics_collection bool
  | C_fetch_20newsgroups fetch_args
  | C_train_test_split "string list" "int list" real int
  | C_HashingVectorizer hashing_params
  | C_transform hashing_vectorizer "string list"
  | C_AutoMLConfig automl_settings
  | C_submit experiment_handle automl_config bool
  | C_RunDetails_show run
  | C_get_children run
  | C_get_properties child_run
  | C_get_metrics child_run
  | C_get_output run
  | C_register_model run string "(string \<times> string) list option"
  | C_load_digits
  | C_predict fitted_model csr_matrix
  | C_ConfusionMatrix "string list" "string list"
  | C_print confusion_matrix
  | C_plot confusion_matrix

text \<open>An event: the code cell that made the call (counting code cells from 1), the call
  with its arguments, and the exception it raised, if any.\<close>

type_synonym event = "nat \<times> call \<times> exn option"

definition ev_cell :: "event \<Rightarrow> nat" where
  "ev_cell ev = fst ev"

definition ev_call :: "event \<Rightarrow> call" where
  "ev_call ev = fst (snd ev)"

definition ev_raised :: "event \<Rightarrow> exn option" where
  "ev_raised ev = snd (snd ev)"

text \<open>A computation of the notebook: the events logged so far, and the exception that ended
  it or the value it produced.\<close>

type_synonym 'a nb = "event list \<times> (exn + 'a)"

definition return_nb :: "'a \<Rightarrow> 'a nb" where
  "return_nb a = ([], Inr a)"

text \<open>A value or exception of the notebook's own glue code: nothing is logged.\<close>

definition lift_nb :: "exn + 'a \<Rightarrow> 'a nb" where
  "lift_nb r = ([], r)"

text \<open>Statement sequencing: what follows runs only when what precedes returned.\<close>

definition bind_nb :: "'a nb \<Rightarrow> ('a \<Rightarrow> 'b nb) \<Rightarrow> 'b nb" where
  "bind_nb m f =
     (case m of
        (t, Inl e) \<Rightarrow> (t, Inl e)
      | (t, Inr a) \<Rightarrow> (case f a of (t', r) \<Rightarrow> (t @ t', r)))"

text \<open>An external call made in code cell \<open>c\<close>, with the library's answer \<open>r\<close>.\<close>

definition ext_call :: "nat \<Rightarrow> call \<Rightarrow> exn + 'a \<Rightarrow> 'a nb" where
  "ext_call c k r = ([(c, k, case r of Inl e \<Rightarrow> Some e | Inr a \<Rightarrow> None)], r)"


subsection \<open>The code cells\<close>

text \<open>Code cell 1 holds only imports, and code cells 9, 11 and 12 are empty or commented
  out: they make no call. The imports, there and at the head of other cells, are taken to
  succeed.\<close>

definition experiment_name :: string where
  "experiment_name = ''automl-local-missing-data''"

definition project_folder :: string where
  "project_folder = ''./sample_projects/automl-local-missing-data''"

text \<open>Code cell 2: the workspace, the experiment handle and the table of the setup.\<close>

definition cell_create_experiment :: "world \<Rightarrow> (workspace \<times> experiment_handle) nb" where
  "cell_create_experiment w =
     bind_nb (ext_call 2 C_from_config (Workspace_from_config w)) (\<lambda>ws.
     bind_nb (ext_call 2 (C_Experiment ws experiment_name) (Experiment w ws experiment_name))
       (\<lambda>experiment.
     let output =
           [(''SDK version'', VERSION w),
            (''Subscription ID'', subscription_id ws),
            (''Workspace'', ws_name ws),
            (''Resource Group'', resource_group ws),
            (''Location'', location ws),
            (''Project Directory'', project_folder),
            (''Experiment Name'', exp_name experiment)]
     in
     bind_nb (ext_call 2 (C_set_option ''display.max_colwidth'' (- 1))
                (pd_set_option w ''display.max_colwidth'' (- 1))) (\<lambda>u.
     bind_nb (ext_call 2 (C_display (D_output output)) (display w (D_output output))) (\<lambda>u.
     return_nb (ws, experiment)))))"

text \<open>Code cell 3: the diagnostics opt-in.\<close>

definition cell_diagnostics :: "world \<Rightarrow> unit nb" where
  "cell_diagnostics w =
     ext_call 3 (C_set_diagnostics_collection True) (set_diagnostics_collection w True)"

definition remove :: "string list" where
  "remove = [''headers'', ''footers'', ''quotes'']"

definition fetch_train_args :: fetch_args where
  "fetch_train_args =
     \<lparr>fetch_subset = ''train'', fetch_categories = categories, fetch_shuffle = True,
      fetch_random_state = 42, fetch_remove = remove\<rparr>"

definition fetch_test_args :: fetch_args where
  "fetch_test_args =
     \<lparr>fetch_subset = ''test'', fetch_categories = categories, fetch_shuffle = True,
      fetch_random_state = 42, fetch_remove = remove\<rparr>"

definition train_vectorizer_params :: hashing_params where
  "train_vectorizer_params =
     \<lparr>stop_words = ''english'', alternate_sign = False, n_features = 2 ^ 16\<rparr>"

definition test_vectorizer_params :: hashing_params where
  "test_vectorizer_params =
     \<lparr>stop_words = ''english'', alternate_sign = False, n_features = 2 ^ 16\<rparr>"

text \<open>Code cell 4: the training documents, their split, and the two sparse matrices. The
  names \<open>X_train\<close> and \<open>X_validation\<close> are rebound from the documents to their matrices.\<close>

definition cell_sparse_data ::
  "world \<Rightarrow> (csr_matrix \<times> csr_matrix \<times> int list \<times> int list) nb" where
  "cell_sparse_data w =
     bind_nb (ext_call 4 (C_fetch_20newsgroups fetch_train_args)
                (fetch_20newsgroups w fetch_train_args)) (\<lambda>data_train.
     bind_nb (ext_call 4 (C_train_test_split (data data_train) (target data_train) (33 / 100) 42)
                (train_test_split w (data data_train) (target data_train) (33 / 100) 42))
       (\<lambda>(docs_train, docs_validation, y_train, y_validation).
     bind_nb (ext_call 4 (C_HashingVectorizer train_vectorizer_params)
                (HashingVectorizer w train_vectorizer_params)) (\<lambda>vectorizer.
     bind_nb (ext_call 4 (C_transform vectorizer docs_train) (transform w vectorizer docs_train))
       (\<lambda>X_train.
     bind_nb (ext_call 4 (C_transform vectorizer docs_validation)
                (transform w vectorizer docs_validation)) (\<lambda>X_validation.
     bind_nb (ext_call 4 (C_display (D_summary (shape X_train) (shape X_validation)))
                (display w (D_summary (shape X_train) (shape X_validation)))) (\<lambda>u.
     return_nb (X_train, X_validation, y_train, y_validation)))))))"

text \<open>Code cell 5: the configuration. \<^verbatim>\<open>logging.INFO\<close> is 20.\<close>

definition the_settings ::
  "csr_matrix \<Rightarrow> int list \<Rightarrow> csr_matrix \<Rightarrow> int list \<Rightarrow> automl_settings" where
  "the_settings X_train y_train X_validation y_validation =
     \<lparr>task = ''classification'',
      debug_log = ''automl_errors.log'',
      primary_metric = ''AUC_weighted'',
      max_time_sec = 3600,
      iterations = 5,
      preprocess = False,
      verbosity = 20,
      cfg_X = X_train,
      cfg_y = y_train,
      cfg_X_valid = X_validation,
      cfg_y_valid = y_validation,
      cfg_path = project_folder\<rparr>"

definition cell_config ::
  "world \<Rightarrow> csr_matrix \<Rightarrow> int list \<Rightarrow> csr_matrix \<Rightarrow> int list \<Rightarrow> automl_config nb" where
  "cell_config w X_train y_train X_validation y_validation =
     ext_call 5 (C_AutoMLConfig (the_settings X_train y_train X_validation y_validation))
       (AutoMLConfig w (the_settings X_train y_train X_validation y_validation))"

text \<open>Code cell 6: the submission.\<close>

definition cell_submit :: "world \<Rightarrow> experiment_handle \<Rightarrow> automl_config \<Rightarrow> run nb" where
  "cell_submit w experiment automl_config =
     ext_call 6 (C_submit experiment automl_config True) (submit w experiment automl_config True)"

text \<open>Code cell 7: the monitoring widget.\<close>

definition cell_widget :: "world \<Rightarrow> run \<Rightarrow> unit nb" where
  "cell_widget w local_run = ext_call 7 (C_RunDetails_show local_run) (RunDetails_show w local_run)"

text \<open>Code cell 8: the loop over the child runs, \<open>metricslist\<close> threaded through it, and the
  table of the result.\<close>

definition float_metrics :: "(string \<times> pyval) list \<Rightarrow> (string \<times> pyval) list" where
  "float_metrics items = filter (\<lambda>(k, v). isinstance_float v) items"

definition int_of_str :: "world \<Rightarrow> string \<Rightarrow> exn + int" where
  "int_of_str w s = (case py_int w s of None \<Rightarrow> Inl (ValueError s) | Some n \<Rightarrow> Inr n)"

fun metrics_loop ::
  "world \<Rightarrow> child_run list \<Rightarrow> (int \<times> (string \<times> pyval) list) list \<Rightarrow>
     (int \<times> (string \<times> pyval) list) list nb" where
  "metrics_loop w [] metricslist = return_nb metricslist"
| "metrics_loop w (r # children) metricslist =
     bind_nb (ext_call 8 (C_get_properties r) (get_properties r)) (\<lambda>properties.
     bind_nb (ext_call 8 (C_get_metrics r) (get_metrics r)) (\<lambda>items.
     let metrics = float_metrics items in
     bind_nb (lift_nb (dict_getitem properties ''iteration'')) (\<lambda>s.
     bind_nb (lift_nb (int_of_str w s)) (\<lambda>n.
     metrics_loop w children (dict_setitem metricslist n metrics)))))"

definition cell_children :: "world \<Rightarrow> run \<Rightarrow> (int \<times> (string \<times> pyval) list) list nb" where
  "cell_children w local_run =
     bind_nb (ext_call 8 (C_get_children local_run) (get_children local_run)) (\<lambda>children.
     bind_nb (metrics_loop w children []) (\<lambda>metricslist.
     bind_nb (ext_call 8 (C_display (D_rundata metricslist)) (display w (D_rundata metricslist)))
       (\<lambda>u.
     return_nb metricslist)))"

text \<open>Code cell 10: the best run and its fitted model.\<close>

definition cell_best :: "world \<Rightarrow> run \<Rightarrow> (child_run \<times> fitted_model) nb" where
  "cell_best w local_run = ext_call 10 (C_get_output local_run) (get_output local_run)"

text \<open>Code cell 13: the registration, then the model id as the cell's value.\<close>

definition cell_register :: "world \<Rightarrow> run \<Rightarrow> unit nb" where
  "cell_register w local_run =
     bind_nb (ext_call 13 (C_register_model local_run ''AutoML Model'' None)
                (register_model local_run ''AutoML Model'' None)) (\<lambda>u.
     ext_call 13 (C_display (D_model_id (model_id local_run)))
       (display w (D_model_id (model_id local_run))))"

text \<open>Code cell 14: the test documents and the evaluation of the fitted model.\<close>

definition cell_test :: "world \<Rightarrow> fitted_model \<Rightarrow> unit nb" where
  "cell_test w fitted_model =
     bind_nb (ext_call 14 C_load_digits (load_digits w)) (\<lambda>digits.
     bind_nb (ext_call 14 (C_fetch_20newsgroups fetch_test_args)
                (fetch_20newsgroups w fetch_test_args)) (\<lambda>data_test.
     bind_nb (ext_call 14 (C_HashingVectorizer test_vectorizer_params)
                (HashingVectorizer w test_vectorizer_params)) (\<lambda>vectorizer.
     bind_nb (ext_call 14 (C_transform vectorizer (data data_test))
                (transform w vectorizer (data data_test))) (\<lambda>X_test.
     let y_test = target data_test in
     bind_nb (ext_call 14 (C_predict fitted_model X_test) (predict fitted_model X_test))
       (\<lambda>ypred.
     bind_nb (lift_nb (label_strings ypred)) (\<lambda>ypred_strings.
     bind_nb (lift_nb (label_strings y_test)) (\<lambda>ytest_strings.
     bind_nb (ext_call 14 (C_ConfusionMatrix ytest_strings ypred_strings)
                (ConfusionMatrix w ytest_strings ypred_strings)) (\<lambda>cm.
     bind_nb (ext_call 14 (C_print cm) (print_cm w cm)) (\<lambda>u.
     ext_call 14 (C_plot cm) (cm_plot w cm))))))))))"

subsection \<open>The notebook\<close>

text \<open>The cells run top to bottom, each with the names the earlier ones bound.\<close>

definition notebook :: "world \<Rightarrow> unit nb" where
  "notebook w =
     bind_nb (cell_create_experiment w) (\<lambda>(ws, experiment).
     bind_nb (cell_diagnostics w) (\<lambda>u.
     bind_nb (cell_sparse_data w) (\<lambda>(X_train, X_validation, y_train, y_validation).
     bind_nb (cell_config w X_train y_train X_validation y_validation) (\<lambda>automl_config.
     bind_nb (cell_submit w experiment automl_config) (\<lambda>local_run.
     bind_nb (cell_widget w local_run) (\<lambda>u.
     bind_nb (cell_children w local_run) (\<lambda>rundata.
     bind_nb (cell_best w local_run) (\<lambda>(best_run, fitted_model).
     bind_nb (cell_register w local_run) (\<lambda>u.
     cell_test w fitted_model)))))))))"


subsection \<open>Notions used to state the properties\<close>

text \<open>\<^verbatim>\<open>int(properties['iteration'])\<close> of a child run, when every step of it succeeds.\<close>

definition run_iteration :: "world \<Rightarrow> child_run \<Rightarrow> int option" where
  "run_iteration w r =
     (case get_properties r of
        Inl e \<Rightarrow> None
      | Inr properties \<Rightarrow>
          (case map_of properties ''iteration'' of None \<Rightarrow> None | Some s \<Rightarrow> py_int w s))"


text \<open>The notebook in three phases: what precedes the submission, the submission, and what
  is done with the run it returns. \<open>notebook_phases\<close> below shows that this is the
  notebook.\<close>

definition prepare :: "world \<Rightarrow> (experiment_handle \<times> automl_config) nb" where
  "prepare w =
     bind_nb (cell_create_experiment w) (\<lambda>(ws, experiment).
     bind_nb (cell_diagnostics w) (\<lambda>u.
     bind_nb (cell_sparse_data w) (\<lambda>(X_train, X_validation, y_train, y_validation).
     bind_nb (cell_config w X_train y_train X_validation y_validation) (\<lambda>automl_config.
     return_nb (experiment, automl_config)))))"

definition explore :: "world \<Rightarrow> run \<Rightarrow> unit nb" where
  "explore w local_run =
     bind_nb (cell_widget w local_run) (\<lambda>u.
     bind_nb (cell_children w local_run) (\<lambda>rundata.
     bind_nb (cell_best w local_run) (\<lambda>(best_run, fitted_model).
     bind_nb (cell_register w local_run) (\<lambda>u.
     cell_test w fitted_model))))"

text \<open>An exception raised by an external call ends the computation and is its result:
  the raising call is the last event of the log.\<close>

definition propagates :: "'a nb \<Rightarrow> bool" where
  "propagates m \<longleftrightarrow>
     (\<forall>pre ev post e. fst m = pre @ ev # post \<and> ev_raised ev = Some e \<longrightarrow>
        post = [] \<and> snd m = Inl e)"

text \<open>The name of the library function behind a call.\<close>

fun call_name :: "call \<Rightarrow> string" where
  "call_name C_from_config = ''Workspace.from_config''"
| "call_name (C_Experiment ws n) = ''Experiment''"
| "call_name (C_set_option k v) = ''pd.set_option''"
| "call_name (C_display d) = ''display''"
| "call_name (C_set_diagnostics_collection b) = ''set_diagnostics_collection''"
| "call_name (C_fetch_20newsgroups a) = ''fetch_20newsgroups''"
| "call_name (C_train_test_split xs ys t s) = ''train_test_split''"
| "call_name (C_HashingVectorizer p) = ''HashingVectorizer''"
| "call_name (C_transform v docs) = ''transform''"
| "call_name (C_AutoMLConfig s) = ''AutoMLConfig''"
| "call_name (C_submit ex cfg b) = ''submit''"
| "call_name (C_RunDetails_show r) = ''RunDetails.show''"
| "call_name (C_get_children r) = ''get_children''"
| "call_name (C_get_properties r) = ''get_properties''"
| "call_name (C_get_metrics r) = ''get_metrics''"
| "call_name (C_get_output r) = ''get_output''"
| "call_name (C_register_model r d t) = ''register_model''"
| "call_name C_load_digits = ''load_digits''"
| "call_name (C_predict m x) = ''predict''"
| "call_name (C_ConfusionMatrix t p) = ''ConfusionMatrix''"
| "call_name (C_print cm) = ''print''"
| "call_name (C_plot cm) = ''plot''"

definition ev_label :: "event \<Rightarrow> nat \<times> string" where
  "ev_label ev = (ev_cell ev, call_name (ev_call ev))"

text \<open>The calls of a run that completes, by code cell and name, when the run has \<open>n\<close>
  children.\<close>

definition script_prepare :: "(nat \<times> string) list" where
  "script_prepare =
     [(2, ''Workspace.from_config''), (2, ''Experiment''), (2, ''pd.set_option''),
      (2, ''display''),
      (3, ''set_diagnostics_collection''),
      (4, ''fetch_20newsgroups''), (4, ''train_test_split''), (4, ''HashingVectorizer''),
      (4, ''transform''), (4, ''transform''), (4, ''display''),
      (5, ''AutoMLConfig'')]"

definition script_loop :: "nat \<Rightarrow> (nat \<times> string) list" where
  "script_loop n = concat (replicate n [(8, ''get_properties''), (8, ''get_metrics'')])"

definition script_test :: "(nat \<times> string) list" where
  "script_test =
     [(14, ''load_digits''), (14, ''fetch_20newsgroups''), (14, ''HashingVectorizer''),
      (14, ''transform''), (14, ''predict''), (14, ''ConfusionMatrix''), (14, ''print''),
      (14, ''plot'')]"

definition script_explore :: "nat \<Rightarrow> (nat \<times> string) list" where
  "script_explore n =
     [(7, ''RunDetails.show''), (8, ''get_children'')] @ script_loop n @
     [(8, ''display''), (10, ''get_output''), (13, ''register_model''), (13, ''display'')] @
     script_test"

definition script :: "nat \<Rightarrow> (nat \<times> string) list" where
  "script n = script_prepare @ [(6, ''submit'')] @ script_explore n"

text \<open>A computation follows a script: its calls are the script when it returns, and a
  part of the script from its start when it raises.\<close>

definition scripted :: "'a nb \<Rightarrow> (nat \<times> string) list \<Rightarrow> bool" where
  "scripted m s \<longleftrightarrow>
     (case snd m of
        Inr a \<Rightarrow> map ev_label (fst m) = s
      | Inl e \<Rightarrow> (\<exists>k. map ev_label (fst m) = take k s))"

text \<open>The seven steps of the specification, by code cell: (1) the experiment handle,
  (2) the training data, (3) the configuration, (4) the submission, (5) progress and
  child-run metrics, (6) the best run and model, (7) the evaluation. The diagnostics
  opt-in of cell 3 and the registration of cell 13 are none of them.\<close>

definition listed_step :: "nat \<Rightarrow> nat option" where
  "listed_step c =
     (if c = 2 then Some 1 else if c = 4 then Some 2 else if c = 5 then Some 3
      else if c = 6 then Some 4 else if c = 7 \<or> c = 8 then Some 5
      else if c = 10 then Some 6 else if c = 14 then Some 7 else None)"

definition steps_of :: "(nat \<times> string) list \<Rightarrow> nat list" where
  "steps_of s = List.map_filter (\<lambda>(c, name). listed_step c) s"

text \<open>The number of child runs a run hands out, 0 when asking for them raises.\<close>

definition children_count :: "run \<Rightarrow> nat" where
  "children_count local_run = (case get_children local_run of Inl e \<Rightarrow> 0 | Inr cs \<Rightarrow> length cs)"




text \<open>
  What the notebook relies on from scikit-learn, as its documentation states it: a fetched
  dataset has as many labels as documents; \<open>train_test_split\<close> of two arrays of one
  length cuts both at the same indices, so each part pairs documents with their own
  labels; a vectorizer is constructed with the parameters given; \<open>transform\<close> returns one
  row per document, in order, each the row the document gets alone, in \<open>n_features\<close>
  columns.
\<close>

definition sklearn_contract :: "world \<Rightarrow> bool" where
  "sklearn_contract w \<longleftrightarrow>
     (\<forall>a b. fetch_20newsgroups w a = Inr b \<longrightarrow> length (data b) = length (target b)) \<and>
     (\<forall>xs ys t s docs_a docs_b ys_a ys_b.
        length xs = length ys \<and> train_test_split w xs ys t s = Inr (docs_a, docs_b, ys_a, ys_b) \<longrightarrow>
          length docs_a = length ys_a \<and> length docs_b = length ys_b \<and>
          set (zip docs_a ys_a) \<subseteq> set (zip xs ys) \<and> set (zip docs_b ys_b) \<subseteq> set (zip xs ys)) \<and>
     (\<forall>p v. HashingVectorizer w p = Inr v \<longrightarrow> vec_params v = p) \<and>
     (\<forall>v docs m. transform w v docs = Inr m \<longrightarrow>
        length (rows m) = length docs \<and> n_cols m = n_features (vec_params v) \<and>
        (\<forall>i<length docs.
           transform w v [docs ! i] = Inr \<lparr>n_cols = n_cols m, rows = [rows m ! i]\<rparr>))"

text \<open>The rows of \<open>X\<close> are labelled by \<open>ys\<close>: as many rows as labels, and row \<open>i\<close> is the
  row of a document of the dataset \<open>b\<close> whose label there is \<open>ys ! i\<close>.\<close>

definition labelled_rows ::
  "world \<Rightarrow> hashing_vectorizer \<Rightarrow> bunch \<Rightarrow> csr_matrix \<Rightarrow> int list \<Rightarrow> bool" where
  "labelled_rows w v b X ys \<longleftrightarrow>
     length (rows X) = length ys \<and>
     (\<forall>i<length ys. \<exists>d. (d, ys ! i) \<in> set (zip (data b) (target b)) \<and>
        transform w v [d] = Inr \<lparr>n_cols = n_cols X, rows = [rows X ! i]\<rparr>)"

text \<open>A fitted model predicts one label per row.\<close>

definition model_contract :: "fitted_model \<Rightarrow> bool" where
  "model_contract m \<longleftrightarrow> (\<forall>X ys. predict m X = Inr ys \<longrightarrow> length ys = length (rows X))"

subsection \<open>A concrete world\<close>

text \<open>A small world in which every call returns: three training documents, two test
  documents, a vectorizer that puts each document in the bucket of its length, a run with
  three children of which the last repeats iteration 0, and a model that always predicts
  class 3. \<open>decimal_int\<close> reads a string of ASCII digits, as \<^verbatim>\<open>int()\<close> does on such a
  string.\<close>

definition digit_of :: "char \<Rightarrow> int option" where
  "digit_of c =
     map_of [(CHR ''0'', 0), (CHR ''1'', 1), (CHR ''2'', 2), (CHR ''3'', 3), (CHR ''4'', 4),
             (CHR ''5'', 5), (CHR ''6'', 6), (CHR ''7'', 7), (CHR ''8'', 8), (CHR ''9'', 9)] c"

fun decimal_digits :: "string \<Rightarrow> int \<Rightarrow> int option" where
  "decimal_digits [] acc = Some acc"
| "decimal_digits (c # cs) acc =
     (case digit_of c of None \<Rightarrow> None | Some d \<Rightarrow> decimal_digits cs (10 * acc + d))"

definition decimal_int :: "string \<Rightarrow> int option" where
  "decimal_int s = (if s = [] then None else decimal_digits s 0)"

definition child_a :: child_run where
  "child_a =
     \<lparr>child_id = ''AutoML_1_0'',
      get_properties = Inr [(''runTemplate'', ''automl_child''), (''iteration'', ''0'')],
      get_metrics = Inr [(''AUC_weighted'', PyFloat 7 (- 3)),
                         (''confusion_matrix'', PyStr ''aml://artifact''),
                         (''accuracy'', PyFloat 3 (- 2))]\<rparr>"

definition child_b :: child_run where
  "child_b =
     \<lparr>child_id = ''AutoML_1_1'',
      get_properties = Inr [(''iteration'', ''1'')],
      get_metrics = Inr [(''AUC_weighted'', PyFloat 13 (- 4)), (''num_classes'', PyInt 4)]\<rparr>"

definition child_c :: child_run where
  "child_c =
     \<lparr>child_id = ''AutoML_1_2'',
      get_properties = Inr [(''iteration'', ''0'')],
      get_metrics = Inr [(''AUC_weighted'', PyFloat 1 (- 1))]\<rparr>"

text \<open>Two children the loop cannot key: one without the property, one whose property is
  no integer.\<close>

definition child_unnumbered :: child_run where
  "child_unnumbered =
     \<lparr>child_id = ''AutoML_1_3'',
      get_properties = Inr [(''runTemplate'', ''automl_child'')],
      get_metrics = Inr [(''AUC_weighted'', PyFloat 1 (- 1))]\<rparr>"

definition child_misnumbered :: child_run where
  "child_misnumbered =
     \<lparr>child_id = ''AutoML_1_4'',
      get_properties = Inr [(''iteration'', ''x'')],
      get_metrics = Inr [(''AUC_weighted'', PyFloat 1 (- 1))]\<rparr>"

definition demo_model :: fitted_model where
  "demo_model = FittedModel (\<lambda>m. Inr (map (\<lambda>r. 3) (rows m)))"

definition demo_run :: "child_run list \<Rightarrow> run" where
  "demo_run children =
     \<lparr>run_id = ''AutoML_1'',
      get_children = Inr children,
      get_output = Inr (child_b, demo_model),
      register_model = (\<lambda>description tags. Inr ()),
      model_id = ''AutoML_1_best''\<rparr>"

definition demo_transform :: "hashing_vectorizer \<Rightarrow> string list \<Rightarrow> exn + csr_matrix" where
  "demo_transform v docs =
     Inr \<lparr>n_cols = n_features (vec_params v),
          rows = map (\<lambda>d. [(length d mod n_features (vec_params v), 1)]) docs\<rparr>"

definition demo_world :: "child_run list \<Rightarrow> world" where
  "demo_world children =
     \<lparr>VERSION = ''0.1.59'',
      Workspace_from_config =
        Inr \<lparr>ws_name = ''ws'', subscription_id = ''sub'', resource_group = ''rg'',
             location = ''eastus2''\<rparr>,
      Experiment = (\<lambda>ws n. Inr \<lparr>exp_name = n, exp_workspace = ws\<rparr>),
      pd_set_option = (\<lambda>k v. Inr ()),
      display = (\<lambda>d. Inr ()),
      set_diagnostics_collection = (\<lambda>b. Inr ()),
      fetch_20newsgroups =
        (\<lambda>a. if fetch_subset a = ''train''
              then Inr \<lparr>data = [''god'', ''pixel'', ''orbit''], target = [0, 2, 3]\<rparr>
              else Inr \<lparr>data = [''moon'', ''faith''], target = [3, 1]\<rparr>),
      train_test_split =
        (\<lambda>xs ys test_size seed. Inr (take 2 xs, drop 2 xs, take 2 ys, drop 2 ys)),
      HashingVectorizer = (\<lambda>p. Inr \<lparr>vec_params = p\<rparr>),
      transform = demo_transform,
      AutoMLConfig = (\<lambda>s. Inr \<lparr>settings = s\<rparr>),
      submit = (\<lambda>e c show_output. Inr (demo_run children)),
      RunDetails_show = (\<lambda>r. Inr ()),
      py_int = decimal_int,
      load_digits = Inr (),
      ConfusionMatrix = (\<lambda>t p. Inr \<lparr>cm_true = t, cm_pred = p\<rparr>),
      print_cm = (\<lambda>cm. Inr ()),
      cm_plot = (\<lambda>cm. Inr ())\<rparr>"


text \<open>What the calls of the concrete world return before the submission.\<close>

definition demo_workspace :: workspace where
  "demo_workspace =
     \<lparr>ws_name = ''ws'', subscription_id = ''sub'', resource_group = ''rg'',
      location = ''eastus2''\<rparr>"

definition demo_experiment :: experiment_handle where
  "demo_experiment = \<lparr>exp_name = experiment_name, exp_workspace = demo_workspace\<rparr>"

definition demo_X_train :: csr_matrix where
  "demo_X_train = \<lparr>n_cols = 65536, rows = [[(3, 1)], [(5, 1)]]\<rparr>"

definition demo_X_validation :: csr_matrix where
  "demo_X_validation = \<lparr>n_cols = 65536, rows = [[(5, 1)]]\<rparr>"

definition demo_X_test :: csr_matrix where
  "demo_X_test = \<lparr>n_cols = 65536, rows = [[(4, 1)], [(5, 1)]]\<rparr>"

definition demo_config :: automl_config where
  "demo_config = \<lparr>settings = the_settings demo_X_train [0, 2] demo_X_validation [3]\<rparr>"


text \<open>The child \<open>child_b\<close> with another text for its iteration, and a second run that
  completes: another id, another child, another model.\<close>

definition child_b_renumbered :: child_run where
  "child_b_renumbered = child_b\<lparr>get_properties := Inr [(''iteration'', ''x'')]\<rparr>"

definition other_run :: run where
  "other_run =
     \<lparr>run_id = ''AutoML_2'',
      get_children = Inr [child_c],
      get_output = Inr (child_c, FittedModel (\<lambda>m. Inr (map (\<lambda>r. 0) (rows m)))),
      register_model = (\<lambda>description tags. Inr ()),
      model_id = ''AutoML_2_best''\<rparr>"

text \<open>The same world without a network: fetching the dataset raises.\<close>

definition offline_world :: world where
  "offline_world = (demo_world [])\<lparr>fetch_20newsgroups := (\<lambda>a. Inl (LibraryError ''URLError''))\<rparr>"

text \<open>The concrete world with a split that returns two training documents and one
  training label.\<close>

definition misaligned_world :: world where
  "misaligned_world =
     (demo_world [child_a, child_b, child_c])
       \<lparr>train_test_split :=
          (\<lambda>xs ys test_size seed. Inr (take 2 xs, drop 2 xs, take 1 ys, drop 2 ys))\<rparr>"

text \<open>The concrete world with a dataset in which a post of the train subset and a post of
  the test subset are left with the same text, the empty one, once headers, footers and
  quotes are removed.\<close>

definition overlap_world :: world where
  "overlap_world =
     (demo_world [child_a, child_b, child_c])
       \<lparr>fetch_20newsgroups :=
          (\<lambda>a. if fetch_subset a = ''train''
                then Inr \<lparr>data = [''god'', [], ''orbit''], target = [0, 2, 3]\<rparr>
                else Inr \<lparr>data = [[], ''faith''], target = [3, 1]\<rparr>)\<rparr>"

section \<open>Properties\<close>

subsection \<open>Sequencing\<close>

lemma snd_bind_nb:
  "snd (bind_nb m f) = (case snd m of Inl e \<Rightarrow> Inl e | Inr a \<Rightarrow> snd (f a))"
  by (simp add: bind_nb_def split: sum.splits prod.splits)

lemma fst_bind_nb:
  "fst (bind_nb m f) = (case snd m of Inl e \<Rightarrow> fst m | Inr a \<Rightarrow> fst m @ fst (f a))"
  by (simp add: bind_nb_def split: sum.splits prod.splits)

lemma snd_ext_call: "snd (ext_call c k r) = r"
  by (simp add: ext_call_def)

lemma fst_ext_call:
  "fst (ext_call c k r) = [(c, k, case r of Inl e \<Rightarrow> Some e | Inr a \<Rightarrow> None)]"
  by (simp add: ext_call_def)

lemma snd_lift_nb: "snd (lift_nb r) = r"
  by (simp add: lift_nb_def)

lemma fst_lift_nb: "fst (lift_nb r) = []"
  by (simp add: lift_nb_def)

lemma snd_return_nb: "snd (return_nb a) = Inr a"
  by (simp add: return_nb_def)

lemma fst_return_nb: "fst (return_nb a) = []"
  by (simp add: return_nb_def)

lemmas nb_simps = snd_bind_nb fst_bind_nb snd_ext_call fst_ext_call snd_lift_nb fst_lift_nb
  snd_return_nb fst_return_nb

text \<open>Rules that run a computation whose answers are known.\<close>

lemma bind_nb_Inr: "bind_nb (t, Inr a) f = (case f a of (t', r) \<Rightarrow> (t @ t', r))"
  by (simp add: bind_nb_def)

lemma bind_nb_Inl: "bind_nb (t, Inl e) f = (t, Inl e)"
  by (simp add: bind_nb_def)

lemmas run_simps = bind_nb_Inr bind_nb_Inl ext_call_def return_nb_def lift_nb_def

subsection \<open>The label comprehensions\<close>

lemma list_getitem_categories:
  "list_getitem categories i =
     (if - 4 \<le> i \<and> i \<le> 3 then Inr (categories ! nat (i mod 4)) else Inl IndexError)"
proof -
  have len: "int (length categories) = 4"
    by (simp add: categories_def)
  have neg: "nat (4 + i) = nat (i mod 4)" if "i < 0" "- 4 \<le> i"
  proof -
    have "i mod 4 = 4 + i"
      using that by presburger
    then show ?thesis by simp
  qed
  have pos: "nat i = nat (i mod 4)" if "0 \<le> i" "i < 4"
    using that by simp
  show ?thesis
    unfolding list_getitem_def len using neg pos by auto
qed

lemma label_strings_Inr_iff:
  "(\<exists>ss. label_strings ys = Inr ss) \<longleftrightarrow> (\<forall>i\<in>set ys. - 4 \<le> i \<and> i \<le> 3)"
  by (induction ys) (auto simp: list_getitem_categories split: sum.splits)

lemma label_strings_Inr:
  "label_strings ys = Inr ss \<Longrightarrow> ss = map (\<lambda>i. categories ! nat (i mod 4)) ys"
  by (induction ys arbitrary: ss) (auto simp: list_getitem_categories split: sum.splits if_splits)

lemma label_strings_Inl: "label_strings ys = Inl e \<Longrightarrow> e = IndexError"
  by (induction ys arbitrary: e) (auto simp: list_getitem_categories split: sum.splits if_splits)

lemma label_strings_classes:
  assumes "\<forall>i\<in>set ys. 0 \<le> i \<and> i \<le> 3"
  shows "label_strings ys = Inr (map (\<lambda>i. categories ! nat i) ys)"
proof -
  from assms have "\<forall>i\<in>set ys. - 4 \<le> i \<and> i \<le> 3"
    by auto
  then obtain ss where ss: "label_strings ys = Inr ss"
    using label_strings_Inr_iff by blast
  have "map (\<lambda>i. categories ! nat (i mod 4)) ys = map (\<lambda>i. categories ! nat i) ys"
    using assms by (intro map_cong) auto
  with label_strings_Inr [OF ss] ss show ?thesis
    by simp
qed

text \<open>
  C9, as amended. The comprehension \<^verbatim>\<open>[categories[i] for i in ys]\<close> returns a list exactly
  when every index lies in \<open>-4..3\<close>: Python's list subscript takes \<open>-4..-1\<close> as positions
  counted from the end. When it returns, the result has the length and the order of the
  input, entry \<open>k\<close> being \<^verbatim>\<open>categories[ys[k]]\<close>. When every label is one of the classes
  \<open>0..3\<close> it returns the names of these classes and IndexError is unreachable; an index
  of 4 makes it raise IndexError, the only exception it can raise.
\<close>

theorem label_strings_total:
  "((\<exists>ss. label_strings ys = Inr ss) \<longleftrightarrow> (\<forall>i\<in>set ys. - 4 \<le> i \<and> i \<le> 3)) \<and>
   (label_strings ys = Inr ss \<longrightarrow>
      length ss = length ys \<and>
      (\<forall>k<length ys. list_getitem categories (ys ! k) = Inr (ss ! k))) \<and>
   ((\<forall>i\<in>set ys. 0 \<le> i \<and> i \<le> 3) \<longrightarrow>
      label_strings ys = Inr (map (\<lambda>i. categories ! nat i) ys)) \<and>
   (label_strings ys = Inl e \<longrightarrow> e = IndexError) \<and>
   label_strings [4] = Inl IndexError"
proof (intro conjI impI)
  show "(\<exists>ss. label_strings ys = Inr ss) \<longleftrightarrow> (\<forall>i\<in>set ys. - 4 \<le> i \<and> i \<le> 3)"
    by (rule label_strings_Inr_iff)
next
  assume ss: "label_strings ys = Inr ss"
  show "length ss = length ys"
    using label_strings_Inr [OF ss] by simp
  have range: "\<forall>i\<in>set ys. - 4 \<le> i \<and> i \<le> 3"
    using ss label_strings_Inr_iff by blast
  show "\<forall>k<length ys. list_getitem categories (ys ! k) = Inr (ss ! k)"
  proof (intro allI impI)
    fix k assume k: "k < length ys"
    with range have "- 4 \<le> ys ! k \<and> ys ! k \<le> 3"
      by (meson nth_mem)
    with k show "list_getitem categories (ys ! k) = Inr (ss ! k)"
      by (simp add: list_getitem_categories label_strings_Inr [OF ss])
  qed
next
  assume "\<forall>i\<in>set ys. 0 \<le> i \<and> i \<le> 3"
  then show "label_strings ys = Inr (map (\<lambda>i. categories ! nat i) ys)"
    by (rule label_strings_classes)
next
  assume "label_strings ys = Inl e"
  then show "e = IndexError"
    by (rule label_strings_Inl)
next
  show "label_strings [4] = Inl IndexError"
    by (simp add: list_getitem_categories)
qed

theorem label_strings_total_witness:
  "label_strings [2, - 1, 0] = Inr [''comp.graphics'', ''sci.space'', ''alt.atheism''] \<and>
   length [''comp.graphics'', ''sci.space'', ''alt.atheism''] = length [2, - 1, 0 :: int] \<and>
   list_getitem categories ([2, - 1, 0] ! 1) = Inr ([''comp.graphics'', ''sci.space'', ''alt.atheism''] ! 1) \<and>
   label_strings [1, 3] = Inr [''talk.religion.misc'', ''sci.space''] \<and>
   label_strings [4] = Inl IndexError"
proof -
  have r: "label_strings [2, - 1, 0] = Inr [''comp.graphics'', ''sci.space'', ''alt.atheism'']"
    by (simp add: list_getitem_def categories_def)
  have c: "\<forall>i\<in>set [1, 3 :: int]. 0 \<le> i \<and> i \<le> 3"
    by simp
  from label_strings_total [of "[2, - 1, 0]" "[''comp.graphics'', ''sci.space'', ''alt.atheism'']"] r
  have "\<forall>k<length [2, - 1, 0 :: int]. list_getitem categories ([2, - 1, 0] ! k) =
          Inr ([''comp.graphics'', ''sci.space'', ''alt.atheism''] ! k)"
    by blast
  then have "1 < length [2, - 1, 0 :: int] \<longrightarrow> list_getitem categories ([2, - 1, 0] ! 1) =
      Inr ([''comp.graphics'', ''sci.space'', ''alt.atheism''] ! 1)"
    by (rule spec)
  then have k1: "list_getitem categories ([2, - 1, 0] ! 1) =
      Inr ([''comp.graphics'', ''sci.space'', ''alt.atheism''] ! 1)"
    by simp
  from label_strings_total [of "[1, 3]"] c
  have "label_strings [1, 3] = Inr (map (\<lambda>i. categories ! nat i) [1, 3])"
    by blast
  then have c13: "label_strings [1, 3] = Inr [''talk.religion.misc'', ''sci.space'']"
    by (simp add: categories_def)
  have "label_strings [4] = Inl IndexError"
    using label_strings_total [of "[]"] by blast
  with r k1 c13 show ?thesis
    by simp
qed

text \<open>The claim as written fails on the index \<open>-1\<close>: it lies outside \<open>0..3\<close>, and the
  comprehension returns the last category.\<close>

theorem label_strings_negative_index_counterexample:
  "label_strings [- 1] = Inr [''sci.space''] \<and> \<not> (0 \<le> (- 1 :: int) \<and> (- 1 :: int) \<le> 3)"
  by (simp add: list_getitem_def categories_def)

subsection \<open>The loop over the child runs\<close>

lemma map_of_dict_setitem: "map_of (dict_setitem d k v) = (map_of d)(k \<mapsto> v)"
  by (induction d k v rule: dict_setitem.induct) auto

lemma metrics_loop_step:
  "snd (metrics_loop w (r # cs) ml) = Inr ml' \<Longrightarrow>
     \<exists>props items s n. get_properties r = Inr props \<and> get_metrics r = Inr items \<and>
       map_of props ''iteration'' = Some s \<and> py_int w s = Some n \<and>
       snd (metrics_loop w cs (dict_setitem ml n (float_metrics items))) = Inr ml'"
  by (auto simp: nb_simps dict_getitem_def int_of_str_def Let_def split: sum.splits option.splits)

lemma metrics_loop_keeps:
  "snd (metrics_loop w cs ml) = Inr ml' \<Longrightarrow> \<forall>r\<in>set cs. run_iteration w r \<noteq> Some n \<Longrightarrow>
     map_of ml' n = map_of ml n"
proof (induction cs arbitrary: ml)
  case Nil
  then show ?case by (simp add: nb_simps)
next
  case (Cons r cs)
  from metrics_loop_step [OF Cons.prems(1)] obtain props items s k where
    r: "get_properties r = Inr props" "get_metrics r = Inr items"
       "map_of props ''iteration'' = Some s" "py_int w s = Some k"
    and rest: "snd (metrics_loop w cs (dict_setitem ml k (float_metrics items))) = Inr ml'"
    by blast
  from r have "run_iteration w r = Some k"
    by (simp add: run_iteration_def)
  with Cons.prems(2) have "k \<noteq> n"
    by auto
  moreover have "map_of ml' n = map_of (dict_setitem ml k (float_metrics items)) n"
    using Cons.IH [OF rest] Cons.prems(2) by simp
  ultimately show ?case
    by (simp add: map_of_dict_setitem)
qed

lemma metrics_loop_row:
  "snd (metrics_loop w (pre @ r # post) ml) = Inr ml' \<Longrightarrow>
     \<exists>props items s n. get_properties r = Inr props \<and> get_metrics r = Inr items \<and>
       map_of props ''iteration'' = Some s \<and> py_int w s = Some n \<and>
       ((\<forall>r'\<in>set post. run_iteration w r' \<noteq> Some n) \<longrightarrow>
          map_of ml' n = Some (float_metrics items))"
proof (induction pre arbitrary: ml)
  case Nil
  then have "snd (metrics_loop w (r # post) ml) = Inr ml'"
    by simp
  from metrics_loop_step [OF this] obtain props items s k where
    r: "get_properties r = Inr props" "get_metrics r = Inr items"
       "map_of props ''iteration'' = Some s" "py_int w s = Some k"
    and rest: "snd (metrics_loop w post (dict_setitem ml k (float_metrics items))) = Inr ml'"
    by blast
  have "map_of ml' k = Some (float_metrics items)"
    if "\<forall>r'\<in>set post. run_iteration w r' \<noteq> Some k"
    using metrics_loop_keeps [OF rest that] by (simp add: map_of_dict_setitem)
  with r show ?case
    by blast
next
  case (Cons p pre)
  then have "snd (metrics_loop w (p # (pre @ r # post)) ml) = Inr ml'"
    by simp
  from metrics_loop_step [OF this] obtain ml0 where
    "snd (metrics_loop w (pre @ r # post) ml0) = Inr ml'"
    by blast
  from Cons.IH [OF this] show ?case .
qed

lemma metrics_loop_raises:
  assumes r: "r \<in> set cs" and none: "run_iteration w r = None"
  shows "\<exists>e. snd (metrics_loop w cs ml) = Inl e"
proof (cases "snd (metrics_loop w cs ml)")
  case (Inl e)
  then show ?thesis by blast
next
  case (Inr ml')
  from r obtain pre post where "cs = pre @ r # post"
    by (auto simp: in_set_conv_decomp)
  with Inr metrics_loop_row [of w pre r post ml ml'] obtain props s n where
    "get_properties r = Inr props" "map_of props ''iteration'' = Some s" "py_int w s = Some n"
    by blast
  then have "run_iteration w r = Some n"
    by (simp add: run_iteration_def)
  with none show ?thesis
    by simp
qed

lemma metrics_loop_overwrites:
  assumes res: "snd (metrics_loop w (pre @ r1 # mid @ r2 # post) ml) = Inr ml'"
    and r2: "run_iteration w r2 = Some n" "get_metrics r2 = Inr items2"
    and post: "\<forall>r'\<in>set post. run_iteration w r' \<noteq> Some n"
  shows "map_of ml' n = Some (float_metrics items2)"
proof -
  from res have "snd (metrics_loop w ((pre @ r1 # mid) @ r2 # post) ml) = Inr ml'"
    by simp
  from metrics_loop_row [OF this] obtain props items s k where
    k: "get_properties r2 = Inr props" "get_metrics r2 = Inr items"
       "map_of props ''iteration'' = Some s" "py_int w s = Some k"
    and row: "(\<forall>r'\<in>set post. run_iteration w r' \<noteq> Some k) \<longrightarrow>
          map_of ml' k = Some (float_metrics items)"
    by blast
  from k have "run_iteration w r2 = Some k"
    by (simp add: run_iteration_def)
  with r2 k have "k = n" "items = items2"
    by simp_all
  with row post show ?thesis
    by simp
qed

lemma float_metrics_iff:
  "(k, v) \<in> set (float_metrics items) \<longleftrightarrow> (k, v) \<in> set items \<and> (\<exists>m e. v = PyFloat m e)"
  by (cases v) (auto simp: float_metrics_def)

text \<open>
  C10. When the loop of code cell 8 returns, every child run \<open>r\<close> it processed had a
  properties dict with an \<^verbatim>\<open>'iteration'\<close> entry that \<^verbatim>\<open>int()\<close> reads as some \<open>n\<close>, and,
  unless a later child has the same \<open>n\<close>, \<open>metricslist[n]\<close> is the row of \<open>r\<close>: the items
  of \<^verbatim>\<open>r.get_metrics()\<close> whose value is a float, and no other. A child whose
  \<^verbatim>\<open>'iteration'\<close> is missing or no integer makes the loop raise. Of two children with
  the same iteration the later one's row is the one kept, with no exception.
\<close>

theorem metrics_loop_rows:
  "(snd (metrics_loop w (pre @ r # post) ml) = Inr ml' \<longrightarrow>
      (\<exists>props items s n. get_properties r = Inr props \<and> get_metrics r = Inr items \<and>
         map_of props ''iteration'' = Some s \<and> py_int w s = Some n \<and>
         ((\<forall>r'\<in>set post. run_iteration w r' \<noteq> Some n) \<longrightarrow>
            map_of ml' n = Some (float_metrics items)))) \<and>
   ((k, v) \<in> set (float_metrics items) \<longleftrightarrow>
      (k, v) \<in> set items \<and> (\<exists>m e. v = PyFloat m e)) \<and>
   (r \<in> set cs \<and> run_iteration w r = None \<longrightarrow> (\<exists>e. snd (metrics_loop w cs ml) = Inl e)) \<and>
   (snd (metrics_loop w (pre @ r1 # mid @ r2 # post) ml) = Inr ml' \<and>
    run_iteration w r1 = Some n \<and> run_iteration w r2 = Some n \<and>
    get_metrics r2 = Inr items2 \<and> (\<forall>r'\<in>set post. run_iteration w r' \<noteq> Some n) \<longrightarrow>
      map_of ml' n = Some (float_metrics items2))"
proof (intro conjI impI)
  assume "snd (metrics_loop w (pre @ r # post) ml) = Inr ml'"
  then show "\<exists>props items s n. get_properties r = Inr props \<and> get_metrics r = Inr items \<and>
         map_of props ''iteration'' = Some s \<and> py_int w s = Some n \<and>
         ((\<forall>r'\<in>set post. run_iteration w r' \<noteq> Some n) \<longrightarrow>
            map_of ml' n = Some (float_metrics items))"
    by (rule metrics_loop_row)
next
  show "(k, v) \<in> set (float_metrics items) \<longleftrightarrow>
      (k, v) \<in> set items \<and> (\<exists>m e. v = PyFloat m e)"
    by (rule float_metrics_iff)
next
  assume "r \<in> set cs \<and> run_iteration w r = None"
  then show "\<exists>e. snd (metrics_loop w cs ml) = Inl e"
    using metrics_loop_raises by blast
next
  assume a: "snd (metrics_loop w (pre @ r1 # mid @ r2 # post) ml) = Inr ml' \<and>
    run_iteration w r1 = Some n \<and> run_iteration w r2 = Some n \<and>
    get_metrics r2 = Inr items2 \<and> (\<forall>r'\<in>set post. run_iteration w r' \<noteq> Some n)"
  show "map_of ml' n = Some (float_metrics items2)"
    by (rule metrics_loop_overwrites [of w pre r1 mid r2 post ml ml' n items2]) (use a in blast)+
qed

lemma decimal_int_0: "decimal_int ''0'' = Some 0"
  by (simp add: decimal_int_def digit_of_def)

lemma decimal_int_1: "decimal_int ''1'' = Some 1"
  by (simp add: decimal_int_def digit_of_def)

lemma decimal_int_x: "decimal_int ''x'' = None"
  by (simp add: decimal_int_def digit_of_def)

lemma py_int_demo_world: "py_int (demo_world cs) = decimal_int"
  by (simp add: demo_world_def)

lemma run_iteration_demo:
  "run_iteration (demo_world cs) child_a = Some 0"
  "run_iteration (demo_world cs) child_b = Some 1"
  "run_iteration (demo_world cs) child_c = Some 0"
  "run_iteration (demo_world cs) child_unnumbered = None"
  "run_iteration (demo_world cs) child_misnumbered = None"
  by (simp_all add: run_iteration_def py_int_demo_world child_a_def child_b_def child_c_def
      child_unnumbered_def child_misnumbered_def decimal_int_0 decimal_int_1 decimal_int_x)

lemma metrics_loop_demo:
  "metrics_loop (demo_world cs) [child_a, child_b, child_c] [] =
     ([(8, C_get_properties child_a, None), (8, C_get_metrics child_a, None),
       (8, C_get_properties child_b, None), (8, C_get_metrics child_b, None),
       (8, C_get_properties child_c, None), (8, C_get_metrics child_c, None)],
      Inr [(0, [(''AUC_weighted'', PyFloat 1 (- 1))]),
           (1, [(''AUC_weighted'', PyFloat 13 (- 4))])])"
  by (simp add: run_simps py_int_demo_world child_a_def child_b_def child_c_def dict_getitem_def
      int_of_str_def float_metrics_def decimal_int_0 decimal_int_1)

theorem metrics_loop_rows_witness:
  "snd (metrics_loop (demo_world []) [child_a, child_b, child_c] []) =
     Inr [(0 :: int, [(''AUC_weighted'', PyFloat 1 (- 1))]), (1, [(''AUC_weighted'', PyFloat 13 (- 4))])] \<and>
   get_metrics child_b = Inr [(''AUC_weighted'', PyFloat 13 (- 4)), (''num_classes'', PyInt 4)] \<and>
   map_of [(0 :: int, [(''AUC_weighted'', PyFloat 1 (- 1))]), (1, [(''AUC_weighted'', PyFloat 13 (- 4))])] 1 =
     Some (float_metrics [(''AUC_weighted'', PyFloat 13 (- 4)), (''num_classes'', PyInt 4)]) \<and>
   (''num_classes'', PyInt 4) \<notin> set (float_metrics [(''AUC_weighted'', PyFloat 13 (- 4)), (''num_classes'', PyInt 4)]) \<and>
   (\<exists>e. snd (metrics_loop (demo_world []) [child_a, child_unnumbered, child_c] []) = Inl e) \<and>
   (\<exists>e. snd (metrics_loop (demo_world []) [child_misnumbered] []) = Inl e) \<and>
   get_metrics child_c = Inr [(''AUC_weighted'', PyFloat 1 (- 1))] \<and>
   map_of [(0 :: int, [(''AUC_weighted'', PyFloat 1 (- 1))]), (1, [(''AUC_weighted'', PyFloat 13 (- 4))])] 0 =
     Some (float_metrics [(''AUC_weighted'', PyFloat 1 (- 1))])"
proof -
  let ?w = "demo_world []"
  let ?ml = "[(0 :: int, [(''AUC_weighted'', PyFloat 1 (- 1))]), (1, [(''AUC_weighted'', PyFloat 13 (- 4))])]"
  have res: "snd (metrics_loop ?w [child_a, child_b, child_c] []) = Inr ?ml"
    by (simp only: metrics_loop_demo snd_conv)
  have mb: "get_metrics child_b = Inr [(''AUC_weighted'', PyFloat 13 (- 4)), (''num_classes'', PyInt 4)]"
    by (simp add: child_b_def)
  have mc: "get_metrics child_c = Inr [(''AUC_weighted'', PyFloat 1 (- 1))]"
    by (simp add: child_c_def)
  have later: "\<forall>r'\<in>set [child_c]. run_iteration ?w r' \<noteq> Some 1"
    by (simp add: run_iteration_demo)
  have resb: "snd (metrics_loop ?w ([child_a] @ child_b # [child_c]) []) = Inr ?ml"
    by (simp only: append_Cons append_Nil res)
  from metrics_loop_rows [where w = ?w and pre = "[child_a]" and r = child_b and post = "[child_c]"
      and ml = "[]" and ml' = ?ml] resb
  obtain props items s n where
    b: "get_properties child_b = Inr props" "get_metrics child_b = Inr items"
       "map_of props ''iteration'' = Some s" "py_int ?w s = Some n"
       "(\<forall>r'\<in>set [child_c]. run_iteration ?w r' \<noteq> Some n) \<longrightarrow>
          map_of ?ml n = Some (float_metrics items)"
    by blast
  from b have "run_iteration ?w child_b = Some n"
    by (simp add: run_iteration_def)
  then have n: "n = 1"
    by (simp add: run_iteration_demo)
  from b(2) mb have items: "items = [(''AUC_weighted'', PyFloat 13 (- 4)), (''num_classes'', PyInt 4)]"
    by simp
  from b(5) [unfolded n items] later
  have row1: "map_of ?ml 1 =
      Some (float_metrics [(''AUC_weighted'', PyFloat 13 (- 4)), (''num_classes'', PyInt 4)])"
    by blast
  have nofloat: "(''num_classes'', PyInt 4) \<notin>
      set (float_metrics [(''AUC_weighted'', PyFloat 13 (- 4)), (''num_classes'', PyInt 4)])"
    using metrics_loop_rows [where k = "''num_classes''" and v = "PyInt 4"
        and items = "[(''AUC_weighted'', PyFloat 13 (- 4)), (''num_classes'', PyInt 4)]"]
    by simp
  have "child_unnumbered \<in> set [child_a, child_unnumbered, child_c] \<and>
      run_iteration ?w child_unnumbered = None"
    by (simp add: run_iteration_demo)
  with metrics_loop_rows [where w = ?w and r = child_unnumbered and ml = "[]"
      and cs = "[child_a, child_unnumbered, child_c]"]
  have raise1: "\<exists>e. snd (metrics_loop ?w [child_a, child_unnumbered, child_c] []) = Inl e"
    by blast
  have "child_misnumbered \<in> set [child_misnumbered] \<and>
      run_iteration ?w child_misnumbered = None"
    by (simp add: run_iteration_demo)
  with metrics_loop_rows [where w = ?w and r = child_misnumbered and ml = "[]"
      and cs = "[child_misnumbered]"]
  have raise2: "\<exists>e. snd (metrics_loop ?w [child_misnumbered] []) = Inl e"
    by blast
  have resc: "snd (metrics_loop ?w ([] @ child_a # [child_b] @ child_c # []) []) = Inr ?ml"
    by (simp only: append_Cons append_Nil res)
  have "run_iteration ?w child_a = Some 0 \<and> run_iteration ?w child_c = Some 0 \<and>
      (\<forall>r'\<in>set []. run_iteration ?w r' \<noteq> Some 0)"
    by (simp add: run_iteration_demo)
  with resc mc
  have dup: "snd (metrics_loop ?w ([] @ child_a # [child_b] @ child_c # []) []) = Inr ?ml \<and>
      run_iteration ?w child_a = Some 0 \<and> run_iteration ?w child_c = Some 0 \<and>
      get_metrics child_c = Inr [(''AUC_weighted'', PyFloat 1 (- 1))] \<and>
      (\<forall>r'\<in>set []. run_iteration ?w r' \<noteq> Some 0)"
    by (intro conjI) (elim conjE, assumption)+
  have row0: "map_of ?ml 0 = Some (float_metrics [(''AUC_weighted'', PyFloat 1 (- 1))])"
    using metrics_loop_rows [where w = ?w and pre = "[]" and post = "[]" and ml = "[]" and ml' = ?ml
        and ?r1.0 = child_a and mid = "[child_b]" and ?r2.0 = child_c and n = 0
        and ?items2.0 = "[(''AUC_weighted'', PyFloat 1 (- 1))]"] dup
    by blast
  from res mb row1 nofloat raise1 raise2 mc row0 show ?thesis
    by blast
qed

subsection \<open>Laws of sequencing\<close>

lemma bind_nb_assoc:
  "bind_nb (bind_nb m f) g = bind_nb m (\<lambda>a. bind_nb (f a) g)"
  by (cases m; cases "snd m") (auto simp: bind_nb_def split: sum.splits prod.splits)

lemma bind_nb_return: "bind_nb m return_nb = m"
  by (cases m; cases "snd m") (auto simp: bind_nb_def return_nb_def)

lemma return_nb_bind: "bind_nb (return_nb a) f = f a"
  by (simp add: bind_nb_def return_nb_def)

lemma notebook_phases:
  "notebook w =
     bind_nb (prepare w) (\<lambda>(experiment, automl_config).
     bind_nb (cell_submit w experiment automl_config) (explore w))"
  by (simp add: notebook_def prepare_def explore_def [abs_def] bind_nb_assoc return_nb_bind
      case_prod_unfold)

subsection \<open>Exceptions of external calls\<close>

lemma propagates_ext_call: "propagates (ext_call c k r)"
  by (cases r) (auto simp: propagates_def ext_call_def ev_raised_def Cons_eq_append_conv)

lemma propagates_lift_nb: "propagates (lift_nb r)"
  by (simp add: propagates_def lift_nb_def)

lemma propagates_return_nb: "propagates (return_nb a)"
  by (simp add: propagates_def return_nb_def)

lemma propagates_bind_nb:
  assumes m: "propagates m" and f: "\<And>a. snd m = Inr a \<Longrightarrow> propagates (f a)"
  shows "propagates (bind_nb m f)"
proof (cases "snd m")
  case (Inl e)
  then have "bind_nb m f = (fst m, Inl e)"
    by (cases m) (simp add: bind_nb_def)
  with m Inl show ?thesis
    by (simp add: propagates_def)
next
  case (Inr a)
  have quiet: "ev_raised ev = None" if "ev \<in> set (fst m)" for ev
  proof (cases "ev_raised ev")
    case (Some e)
    from that obtain pre post where "fst m = pre @ ev # post"
      by (auto simp: in_set_conv_decomp)
    with m Some have "snd m = Inl e"
      unfolding propagates_def by blast
    with Inr show ?thesis by simp
  qed simp
  show ?thesis
    unfolding propagates_def
  proof (intro allI impI)
    fix pre ev post e
    assume a: "fst (bind_nb m f) = pre @ ev # post \<and> ev_raised ev = Some e"
    with Inr have split: "fst m @ fst (f a) = pre @ ev # post"
      by (simp add: fst_bind_nb)
    have "ev \<notin> set (fst m)"
    proof
      assume "ev \<in> set (fst m)"
      then have "ev_raised ev = None"
        by (rule quiet)
      with a show False
        by simp
    qed
    have "\<exists>pre'. pre = fst m @ pre' \<and> fst (f a) = pre' @ ev # post"
      using split \<open>ev \<notin> set (fst m)\<close>
      by (auto simp: append_eq_append_conv2 append_eq_Cons_conv)
    then obtain pre' where "fst (f a) = pre' @ ev # post"
      by blast
    with f [OF Inr] a have "post = [] \<and> snd (f a) = Inl e"
      unfolding propagates_def by blast
    with Inr show "post = [] \<and> snd (bind_nb m f) = Inl e"
      by (simp add: snd_bind_nb)
  qed
qed

lemma propagates_metrics_loop: "propagates (metrics_loop w cs ml)"
  by (induction cs arbitrary: ml)
    (auto intro!: propagates_bind_nb propagates_ext_call propagates_lift_nb propagates_return_nb
      simp: Let_def)

lemma propagates_cells:
  "propagates (cell_create_experiment w)"
  "propagates (cell_diagnostics w)"
  "propagates (cell_sparse_data w)"
  "propagates (cell_config w X_train y_train X_validation y_validation)"
  "propagates (cell_submit w experiment automl_config)"
  "propagates (cell_widget w local_run)"
  "propagates (cell_children w local_run)"
  "propagates (cell_best w local_run)"
  "propagates (cell_register w local_run)"
  "propagates (cell_test w fitted_model)"
  unfolding cell_create_experiment_def cell_diagnostics_def cell_sparse_data_def cell_config_def
    cell_submit_def cell_widget_def cell_children_def cell_best_def cell_register_def
    cell_test_def Let_def
  by (auto intro!: propagates_bind_nb propagates_ext_call propagates_lift_nb propagates_return_nb
      propagates_metrics_loop)

lemma propagates_notebook: "propagates (notebook w)"
  unfolding notebook_def
  by (auto intro!: propagates_bind_nb propagates_cells)

lemmas cell_defs = cell_create_experiment_def cell_diagnostics_def cell_sparse_data_def
  cell_config_def cell_submit_def cell_widget_def cell_children_def cell_best_def
  cell_register_def cell_test_def

lemma notebook_offline:
  "notebook offline_world =
     ([(2, C_from_config, None),
       (2, C_Experiment \<lparr>ws_name = ''ws'', subscription_id = ''sub'', resource_group = ''rg'',
             location = ''eastus2''\<rparr> experiment_name, None),
       (2, C_set_option ''display.max_colwidth'' (- 1), None),
       (2, C_display (D_output
            [(''SDK version'', ''0.1.59''), (''Subscription ID'', ''sub''), (''Workspace'', ''ws''),
             (''Resource Group'', ''rg''), (''Location'', ''eastus2''),
             (''Project Directory'', project_folder), (''Experiment Name'', experiment_name)]), None),
       (3, C_set_diagnostics_collection True, None),
       (4, C_fetch_20newsgroups fetch_train_args, Some (LibraryError ''URLError''))],
      Inl (LibraryError ''URLError''))"
  by (simp add: notebook_def cell_defs run_simps offline_world_def demo_world_def)

text \<open>
  C4. Whatever the libraries answer, an external call that raises is the last event of
  the notebook's log, so nothing is called after it (no handler resumes, no call is
  retried), and the exception it raised is, unchanged, the result of the notebook. The log
  holds every external call the notebook makes: the dataset fetches, the vectorizer and
  its transforms, the configuration, the submission, the widget, the child runs with
  their properties and metrics, the best model, the registration, the prediction and the
  confusion matrix.
\<close>

theorem notebook_propagates:
  "fst (notebook w) = pre @ ev # post \<and> ev_raised ev = Some e \<longrightarrow>
     post = [] \<and> snd (notebook w) = Inl e"
  using propagates_notebook [of w] unfolding propagates_def by blast

theorem notebook_propagates_witness:
  "fst (notebook offline_world) =
     take 5 (fst (notebook offline_world)) @
       (4, C_fetch_20newsgroups fetch_train_args, Some (LibraryError ''URLError'')) # [] \<and>
   ev_raised (4, C_fetch_20newsgroups fetch_train_args, Some (LibraryError ''URLError'')) =
     Some (LibraryError ''URLError'') \<and>
   snd (notebook offline_world) = Inl (LibraryError ''URLError'')"
proof -
  have log: "fst (notebook offline_world) =
     take 5 (fst (notebook offline_world)) @
       (4, C_fetch_20newsgroups fetch_train_args, Some (LibraryError ''URLError'')) # []"
    by (simp add: notebook_offline)
  have raised:
    "ev_raised (4, C_fetch_20newsgroups fetch_train_args, Some (LibraryError ''URLError'')) =
       Some (LibraryError ''URLError'')"
    by (simp add: ev_raised_def)
  from notebook_propagates [of offline_world "take 5 (fst (notebook offline_world))"
      "(4, C_fetch_20newsgroups fetch_train_args, Some (LibraryError ''URLError''))" "[]"
      "LibraryError ''URLError''"] log raised
  have "snd (notebook offline_world) = Inl (LibraryError ''URLError'')"
    by blast
  with log raised show ?thesis
    by blast
qed

subsection \<open>The order of the calls\<close>

lemma take_append_ex: "\<exists>k'. take k s1 = take k' (s1 @ s2)"
  by (rule exI [of _ "min k (length s1)"]) (auto simp: min_def)

lemma scripted_ext_call: "call_name k = name \<Longrightarrow> scripted (ext_call c k r) [(c, name)]"
proof (cases r)
  case (Inl e)
  assume "call_name k = name"
  then have "map ev_label (fst (ext_call c k r)) = take 1 [(c, name)]"
    by (simp add: ext_call_def ev_label_def ev_cell_def ev_call_def)
  then have "\<exists>k'. map ev_label (fst (ext_call c k r)) = take k' [(c, name)]"
    by (rule exI)
  with Inl show ?thesis
    unfolding scripted_def by (simp add: snd_ext_call)
next
  case (Inr a)
  assume "call_name k = name"
  with Inr show ?thesis
    by (simp add: scripted_def ext_call_def ev_label_def ev_cell_def ev_call_def)
qed

lemma scripted_return_nb: "scripted (return_nb a) []"
  by (simp add: scripted_def return_nb_def)

lemma scripted_lift_nb: "scripted (lift_nb r) []"
  by (cases r) (simp_all add: scripted_def lift_nb_def)

lemma scripted_bind_nb:
  assumes m: "scripted m s1" and f: "\<And>a. snd m = Inr a \<Longrightarrow> scripted (f a) s2"
  shows "scripted (bind_nb m f) (s1 @ s2)"
proof (cases "snd m")
  case (Inl e)
  with m obtain k where "map ev_label (fst m) = take k s1"
    by (auto simp: scripted_def)
  with take_append_ex [of k s1 s2] have "\<exists>k'. map ev_label (fst m) = take k' (s1 @ s2)"
    by simp
  with Inl show ?thesis
    unfolding scripted_def by (simp add: nb_simps)
next
  case (Inr a)
  with m have s1: "map ev_label (fst m) = s1"
    by (simp add: scripted_def)
  show ?thesis
  proof (cases "snd (f a)")
    case (Inl e)
    with f [OF Inr] obtain k where "map ev_label (fst (f a)) = take k s2"
      by (auto simp: scripted_def)
    with s1 have "map ev_label (fst m @ fst (f a)) = take (length s1 + k) (s1 @ s2)"
      by simp
    then have "\<exists>k'. map ev_label (fst m @ fst (f a)) = take k' (s1 @ s2)"
      by (rule exI)
    with Inr Inl show ?thesis
      unfolding scripted_def by (simp add: nb_simps)
  next
    case Inr2: (Inr b)
    with f [OF Inr] have "map ev_label (fst (f a)) = s2"
      by (simp add: scripted_def)
    with s1 Inr Inr2 show ?thesis
      by (simp add: scripted_def nb_simps)
  qed
qed

lemma scripted_Inl: "snd m = Inl e \<Longrightarrow> scripted m s1 \<Longrightarrow> scripted m (s1 @ s2)"
proof -
  assume e: "snd m = Inl e" and "scripted m s1"
  then obtain k where "map ev_label (fst m) = take k s1"
    by (auto simp: scripted_def)
  with take_append_ex [of k s1 s2] have "\<exists>k'. map ev_label (fst m) = take k' (s1 @ s2)"
    by simp
  with e show ?thesis
    unfolding scripted_def by simp
qed

lemma scripted_metrics_loop: "scripted (metrics_loop w cs ml) (script_loop (length cs))"
proof (induction cs arbitrary: ml)
  case Nil
  show ?case
    by (simp add: script_loop_def scripted_return_nb)
next
  case (Cons r cs)
  have "scripted (metrics_loop w (r # cs) ml)
     ([(8, ''get_properties'')] @ [(8, ''get_metrics'')] @ [] @ [] @ script_loop (length cs))"
    unfolding metrics_loop.simps Let_def
    by (intro scripted_bind_nb scripted_ext_call scripted_lift_nb Cons.IH; simp)
  then show ?case
    by (simp add: script_loop_def)
qed

lemma scripted_prepare: "scripted (prepare w) script_prepare"
proof -
  have "scripted (prepare w)
     (([(2, ''Workspace.from_config'')] @ [(2, ''Experiment'')] @ [(2, ''pd.set_option'')] @
       [(2, ''display'')] @ []) @
      [(3, ''set_diagnostics_collection'')] @
      ([(4, ''fetch_20newsgroups'')] @ [(4, ''train_test_split'')] @
       [(4, ''HashingVectorizer'')] @ [(4, ''transform'')] @ [(4, ''transform'')] @
       [(4, ''display'')] @ []) @
      [(5, ''AutoMLConfig'')] @ [])"
    unfolding prepare_def cell_defs Let_def case_prod_unfold
    by (intro scripted_bind_nb scripted_ext_call scripted_return_nb; simp)
  then show ?thesis
    by (simp add: script_prepare_def)
qed

lemma scripted_cell_test: "scripted (cell_test w fitted_model) script_test"
proof -
  have "scripted (cell_test w fitted_model)
     ([(14, ''load_digits'')] @ [(14, ''fetch_20newsgroups'')] @ [(14, ''HashingVectorizer'')] @
      [(14, ''transform'')] @ [(14, ''predict'')] @ [] @ [] @ [(14, ''ConfusionMatrix'')] @
      [(14, ''print'')] @ [(14, ''plot'')])"
    unfolding cell_defs Let_def
    by (intro scripted_bind_nb scripted_ext_call scripted_lift_nb; simp)
  then show ?thesis
    by (simp add: script_test_def)
qed

lemma scripted_cell_children:
  "scripted (cell_children w local_run)
     ([(8, ''get_children'')] @ script_loop (children_count local_run) @ [(8, ''display'')])"
proof (cases "get_children local_run")
  case (Inl e)
  have "scripted (ext_call 8 (C_get_children local_run) (get_children local_run))
      [(8, ''get_children'')]"
    by (rule scripted_ext_call) simp
  with Inl have "scripted (cell_children w local_run) [(8, ''get_children'')]"
    by (simp add: cell_children_def scripted_def nb_simps)
  moreover from Inl have "snd (cell_children w local_run) = Inl e"
    by (simp add: cell_children_def nb_simps)
  ultimately show ?thesis
    by (rule scripted_Inl [rotated])
next
  case (Inr cs)
  then have n: "children_count local_run = length cs"
    by (simp add: children_count_def)
  have "scripted (cell_children w local_run)
     ([(8, ''get_children'')] @ script_loop (length cs) @ [(8, ''display'')] @ [])"
    unfolding cell_children_def
  proof (intro scripted_bind_nb scripted_ext_call scripted_return_nb)
    show "call_name (C_get_children local_run) = ''get_children''"
      by simp
    show "call_name (C_display d) = ''display''" for d
      by simp
    fix a assume "snd (ext_call 8 (C_get_children local_run) (get_children local_run)) = Inr a"
    with Inr have "a = cs"
      by (simp add: nb_simps)
    then show "scripted (metrics_loop w a []) (script_loop (length cs))"
      by (simp add: scripted_metrics_loop)
  qed
  with n show ?thesis
    by simp
qed

lemma scripted_explore:
  "scripted (explore w local_run) (script_explore (children_count local_run))"
proof -
  have "scripted (explore w local_run)
     ([(7, ''RunDetails.show'')] @
      ([(8, ''get_children'')] @ script_loop (children_count local_run) @ [(8, ''display'')]) @
      [(10, ''get_output'')] @ ([(13, ''register_model'')] @ [(13, ''display'')]) @ script_test)"
    unfolding explore_def case_prod_unfold
    unfolding cell_widget_def cell_best_def cell_register_def
    by (intro scripted_bind_nb scripted_cell_children scripted_cell_test scripted_ext_call; simp)
  then show ?thesis
    by (simp add: script_explore_def)
qed

lemma scripted_bind_nb_ex:
  assumes m: "scripted m s1" and f: "\<And>a. snd m = Inr a \<Longrightarrow> \<exists>n::nat. scripted (f a) (s2 n)"
  shows "\<exists>n. scripted (bind_nb m f) (s1 @ s2 n)"
proof (cases "snd m")
  case (Inl e)
  then have "scripted (bind_nb m f) (s1 @ s2 0)"
    by (intro scripted_bind_nb m) simp
  then show ?thesis ..
next
  case (Inr a)
  from f [OF Inr] obtain n where n: "scripted (f a) (s2 n)" ..
  have "scripted (bind_nb m f) (s1 @ s2 n)"
  proof (intro scripted_bind_nb m)
    fix a' assume "snd m = Inr a'"
    with Inr have "a' = a"
      by simp
    with n show "scripted (f a') (s2 n)"
      by simp
  qed
  then show ?thesis ..
qed

lemma scripted_notebook: "\<exists>n. scripted (notebook w) (script n)"
  unfolding notebook_phases case_prod_unfold script_def cell_submit_def
proof (intro scripted_bind_nb_ex [where ?s2.0 = "\<lambda>n. [(6, ''submit'')] @ script_explore n"]
    scripted_bind_nb_ex [where ?s2.0 = script_explore] scripted_prepare scripted_ext_call)
  show "call_name (C_submit e c b) = ''submit''" for e c b
    by simp
  show "\<exists>n. scripted (explore w local_run) (script_explore n)" for local_run
    using scripted_explore ..
qed

lemma steps_of_Nil: "steps_of [] = []"
  by (simp add: steps_of_def map_filter_def)

lemma steps_of_Cons:
  "steps_of ((c, name) # s) =
     (case listed_step c of None \<Rightarrow> steps_of s | Some k \<Rightarrow> k # steps_of s)"
  by (simp add: steps_of_def map_filter_def split: option.splits)

lemma steps_of_append: "steps_of (s1 @ s2) = steps_of s1 @ steps_of s2"
  by (simp add: steps_of_def map_filter_def)

lemma steps_of_script_loop: "steps_of (script_loop n) = replicate (2 * n) 5"
  by (induction n) (simp_all add: script_loop_def steps_of_Nil steps_of_Cons listed_step_def)

lemma steps_of_script:
  "steps_of (script n) =
     [1, 1, 1, 1, 2, 2, 2, 2, 2, 2, 3, 4, 5, 5] @ replicate (2 * n) 5 @
     [5, 6, 7, 7, 7, 7, 7, 7, 7, 7]"
  by (simp add: script_def script_explore_def script_prepare_def script_test_def steps_of_Nil
      steps_of_Cons steps_of_append steps_of_script_loop listed_step_def)

lemma sorted_steps_of_script: "sorted (steps_of (script n))"
  by (simp add: steps_of_script sorted_append)

lemma remdups_replicate_Cons: "remdups (replicate m x @ x # xs) = remdups (x # xs)"
  by (induction m) simp_all

lemma remdups_steps_of_script: "remdups (steps_of (script n)) = [1, 2, 3, 4, 5, 6, 7]"
proof -
  have "remdups (replicate (2 * n) 5 @ [5, 6, 7, 7, 7, 7, 7, 7, 7, 7]) = [5, 6, 7 :: nat]"
    using remdups_replicate_Cons [of "2 * n" 5 "[6, 7, 7, 7, 7, 7, 7, 7, 7 :: nat]"] by simp
  moreover have "set (replicate (2 * n) 5 @ [5, 6, 7, 7, 7, 7, 7, 7, 7, 7]) = {5, 6, 7 :: nat}"
    by auto
  ultimately show ?thesis
    by (simp add: steps_of_script)
qed

lemma sorted_steps_of_take: "sorted (steps_of (take k (script n)))"
proof -
  have "steps_of (script n) = steps_of (take k (script n)) @ steps_of (drop k (script n))"
    by (simp add: steps_of_append [symmetric])
  with sorted_steps_of_script [of n] show ?thesis
    by (simp add: sorted_append)
qed

text \<open>
  C1, as amended. On every run the calls of the notebook, by code cell and library
  function, are an initial part of one fixed sequence (all of it when the run returns):
  the workspace and the experiment handle, the diagnostics opt-in, the training data
  fetched, split and vectorized, the configuration, the submission, the widget and the
  child runs with their properties and metrics, the best run and model, the registration,
  and the evaluation on the test data. So on every run the listed steps that are executed
  are executed in the listed order, and on every run that returns, all seven are.
\<close>

theorem notebook_steps_in_order:
  "(\<exists>n. scripted (notebook w) (script n)) \<and>
   sorted (steps_of (map ev_label (fst (notebook w)))) \<and>
   (snd (notebook w) = Inr u \<longrightarrow>
      (\<exists>n. map ev_label (fst (notebook w)) = script n) \<and>
      remdups (steps_of (map ev_label (fst (notebook w)))) = [1, 2, 3, 4, 5, 6, 7])"
proof -
  from scripted_notebook [of w] obtain n where n: "scripted (notebook w) (script n)" ..
  have "\<exists>k. map ev_label (fst (notebook w)) = take k (script n)"
  proof (cases "snd (notebook w)")
    case (Inl e)
    with n show ?thesis
      by (simp add: scripted_def)
  next
    case (Inr a)
    with n have "map ev_label (fst (notebook w)) = take (length (script n)) (script n)"
      by (simp add: scripted_def)
    then show ?thesis ..
  qed
  then have ordered: "sorted (steps_of (map ev_label (fst (notebook w))))"
    using sorted_steps_of_take by auto
  have "map ev_label (fst (notebook w)) = script n" if "snd (notebook w) = Inr u"
    using n that by (simp add: scripted_def)
  with n ordered show ?thesis
    using remdups_steps_of_script by auto
qed

lemma notebook_demo_returns: "snd (notebook (demo_world [child_a, child_b, child_c])) = Inr ()"
  by (simp add: notebook_def cell_defs run_simps demo_world_def demo_run_def demo_model_def
      demo_transform_def fetch_train_args_def fetch_test_args_def
      child_a_def child_b_def child_c_def dict_getitem_def
      int_of_str_def float_metrics_def decimal_int_0 decimal_int_1 list_getitem_def categories_def)

theorem notebook_steps_in_order_witness:
  "snd (notebook (demo_world [child_a, child_b, child_c])) = Inr () \<and>
   (\<exists>n. map ev_label (fst (notebook (demo_world [child_a, child_b, child_c]))) = script n) \<and>
   remdups (steps_of (map ev_label (fst (notebook (demo_world [child_a, child_b, child_c]))))) =
     [1, 2, 3, 4, 5, 6, 7] \<and>
   sorted (steps_of (map ev_label (fst (notebook offline_world))))"
  using notebook_steps_in_order [of "demo_world [child_a, child_b, child_c]" "()"]
    notebook_steps_in_order [of offline_world "()"] notebook_demo_returns
  by blast

text \<open>The claim as written fails when a call raises: without a network the run ends in
  the fetch of step 2 and steps 3 to 7 are never executed.\<close>

theorem notebook_steps_offline_counterexample:
  "steps_of (map ev_label (fst (notebook offline_world))) = [1, 1, 1, 1, 2] \<and>
   snd (notebook offline_world) = Inl (LibraryError ''URLError'') \<and>
   remdups (steps_of (map ev_label (fst (notebook offline_world)))) \<noteq> [1, 2, 3, 4, 5, 6, 7]"
  by (simp add: notebook_offline steps_of_Nil steps_of_Cons listed_step_def ev_label_def
      ev_cell_def)

subsection \<open>The events of the log\<close>

lemma in_fst_bind_nb:
  "ev \<in> set (fst (bind_nb m f)) \<longleftrightarrow>
     ev \<in> set (fst m) \<or> (\<exists>a. snd m = Inr a \<and> ev \<in> set (fst (f a)))"
  by (cases "snd m") (auto simp: fst_bind_nb)

lemma snd_bind_nb_Inr:
  "snd (bind_nb m f) = Inr b \<longleftrightarrow> (\<exists>a. snd m = Inr a \<and> snd (f a) = Inr b)"
  by (cases "snd m") (auto simp: snd_bind_nb)

lemma in_fst_ext_call:
  "ev \<in> set (fst (ext_call c k r)) \<longleftrightarrow>
     ev = (c, k, case r of Inl e \<Rightarrow> Some e | Inr a \<Rightarrow> None)"
  by (simp add: ext_call_def)

lemmas event_simps = in_fst_bind_nb snd_bind_nb_Inr in_fst_ext_call snd_ext_call fst_return_nb
  snd_return_nb fst_lift_nb snd_lift_nb

lemma scripted_labels:
  assumes "scripted m s" and "ev \<in> set (fst m)"
  shows "ev_label ev \<in> set s"
proof -
  have "\<exists>k. map ev_label (fst m) = take k s"
  proof (cases "snd m")
    case (Inl e)
    with assms(1) show ?thesis
      by (simp add: scripted_def)
  next
    case (Inr a)
    with assms(1) have "map ev_label (fst m) = take (length s) s"
      by (simp add: scripted_def)
    then show ?thesis ..
  qed
  then obtain k where "map ev_label (fst m) = take k s" ..
  moreover from assms(2) have "ev_label ev \<in> set (map ev_label (fst m))"
    by simp
  ultimately show ?thesis
    by (auto dest: in_set_takeD)
qed

lemma set_script_loop: "set (script_loop n) \<subseteq> {(8, ''get_properties''), (8, ''get_metrics'')}"
  by (induction n) (auto simp: script_loop_def)

lemma notebook_events:
  assumes "ev \<in> set (fst (notebook w))"
  shows "ev \<in> set (fst (prepare w)) \<or>
    (\<exists>ex cfg. snd (prepare w) = Inr (ex, cfg) \<and>
       (ev = (6, C_submit ex cfg True,
              case submit w ex cfg True of Inl e \<Rightarrow> Some e | Inr a \<Rightarrow> None) \<or>
        (\<exists>local_run. submit w ex cfg True = Inr local_run \<and>
           ev \<in> set (fst (explore w local_run)))))"
  using assms unfolding notebook_phases cell_submit_def
  by (auto simp: event_simps)

lemma prepare_events_notebook: "set (fst (prepare w)) \<subseteq> set (fst (notebook w))"
  unfolding notebook_phases by (auto simp: event_simps)

lemma prepare_Inr:
  assumes "snd (prepare w) = Inr (ex, cfg)"
  shows "\<exists>ws X_train X_validation y_train y_validation.
     snd (cell_create_experiment w) = Inr (ws, ex) \<and>
     snd (cell_sparse_data w) = Inr (X_train, X_validation, y_train, y_validation) \<and>
     AutoMLConfig w (the_settings X_train y_train X_validation y_validation) = Inr cfg \<and>
     (5, C_AutoMLConfig (the_settings X_train y_train X_validation y_validation), None)
       \<in> set (fst (prepare w))"
  using assms unfolding prepare_def cell_config_def
  by (auto simp: event_simps)

lemma prepare_AutoMLConfig:
  assumes "(c, C_AutoMLConfig s, out) \<in> set (fst (prepare w))"
  shows "c = 5 \<and> (\<exists>X_train X_validation y_train y_validation.
     snd (cell_sparse_data w) = Inr (X_train, X_validation, y_train, y_validation) \<and>
     s = the_settings X_train y_train X_validation y_validation)"
  using assms unfolding prepare_def cell_defs Let_def
  by (auto simp: event_simps)

lemma explore_labels:
  assumes "ev \<in> set (fst (explore w local_run))"
  shows "ev_label ev \<in> set (script_explore (children_count local_run))"
  using scripted_explore assms by (rule scripted_labels)

lemma not_in_script_explore:
  "(c, ''submit'') \<notin> set (script_explore n)" "(c, ''AutoMLConfig'') \<notin> set (script_explore n)"
  using set_script_loop [of n] by (auto simp: script_explore_def script_test_def)

lemma not_in_script_prepare: "(c, ''submit'') \<notin> set script_prepare"
  by (simp add: script_prepare_def)

lemma prepare_demo:
  "prepare (demo_world cs) =
     ([(2, C_from_config, None),
       (2, C_Experiment demo_workspace experiment_name, None),
       (2, C_set_option ''display.max_colwidth'' (- 1), None),
       (2, C_display (D_output
            [(''SDK version'', ''0.1.59''), (''Subscription ID'', ''sub''), (''Workspace'', ''ws''),
             (''Resource Group'', ''rg''), (''Location'', ''eastus2''),
             (''Project Directory'', project_folder), (''Experiment Name'', experiment_name)]), None),
       (3, C_set_diagnostics_collection True, None),
       (4, C_fetch_20newsgroups fetch_train_args, None),
       (4, C_train_test_split [''god'', ''pixel'', ''orbit''] [0, 2, 3] (33 / 100) 42, None),
       (4, C_HashingVectorizer train_vectorizer_params, None),
       (4, C_transform \<lparr>vec_params = train_vectorizer_params\<rparr> [''god'', ''pixel''], None),
       (4, C_transform \<lparr>vec_params = train_vectorizer_params\<rparr> [''orbit''], None),
       (4, C_display (D_summary (2, 65536) (1, 65536)), None),
       (5, C_AutoMLConfig (the_settings demo_X_train [0, 2] demo_X_validation [3]), None)],
      Inr (demo_experiment, demo_config))"
  by (simp add: prepare_def cell_defs run_simps demo_world_def demo_transform_def
      fetch_train_args_def train_vectorizer_params_def shape_def demo_workspace_def
      demo_experiment_def demo_X_train_def demo_X_validation_def demo_config_def)

lemma cell_sparse_data_demo:
  "snd (cell_sparse_data (demo_world cs)) = Inr (demo_X_train, demo_X_validation, [0, 2], [3])"
  by (simp add: cell_defs run_simps demo_world_def demo_transform_def
      fetch_train_args_def train_vectorizer_params_def shape_def
      demo_X_train_def demo_X_validation_def)

lemma submit_demo:
  "(6, C_submit demo_experiment demo_config True, None) \<in> set (fst (notebook (demo_world cs)))"
proof -
  have "submit (demo_world cs) demo_experiment demo_config True = Inr (demo_run cs)"
    by (simp add: demo_world_def)
  moreover have "snd (prepare (demo_world cs)) = Inr (demo_experiment, demo_config)"
    by (simp add: prepare_demo)
  ultimately show ?thesis
    unfolding notebook_phases
    by (simp add: in_fst_bind_nb cell_submit_def in_fst_ext_call)
qed

lemma count_script_loop:
  "filter (\<lambda>l. snd l = ''AutoMLConfig'') (script_loop n) = []"
  "filter (\<lambda>l. snd l = ''submit'') (script_loop n) = []"
  by (induction n) (simp_all add: script_loop_def)

lemma length_filter_take: "length (filter P (take k s)) \<le> length (filter P s)"
proof -
  have "filter P s = filter P (take k s) @ filter P (drop k s)"
    by (simp flip: filter_append)
  then show ?thesis
    by simp
qed

lemma single_config_and_submit:
  "length (filter (\<lambda>l. snd l = ''AutoMLConfig'') (map ev_label (fst (notebook w)))) \<le> 1"
  "length (filter (\<lambda>l. snd l = ''submit'') (map ev_label (fst (notebook w)))) \<le> 1"
proof -
  from scripted_notebook [of w] obtain n where n: "scripted (notebook w) (script n)" ..
  have "\<exists>k. map ev_label (fst (notebook w)) = take k (script n)"
  proof (cases "snd (notebook w)")
    case (Inl e)
    with n show ?thesis
      by (simp add: scripted_def)
  next
    case (Inr a)
    with n have "map ev_label (fst (notebook w)) = take (length (script n)) (script n)"
      by (simp add: scripted_def)
    then show ?thesis ..
  qed
  then obtain k where k: "map ev_label (fst (notebook w)) = take k (script n)" ..
  have "length (filter (\<lambda>l. snd l = ''AutoMLConfig'') (script n)) = 1"
    "length (filter (\<lambda>l. snd l = ''submit'') (script n)) = 1"
    by (simp_all add: script_def script_prepare_def script_explore_def script_test_def
        count_script_loop)
  with length_filter_take [of "\<lambda>l. snd l = ''AutoMLConfig''" k "script n"]
    length_filter_take [of "\<lambda>l. snd l = ''submit''" k "script n"] k
  show "length (filter (\<lambda>l. snd l = ''AutoMLConfig'') (map ev_label (fst (notebook w)))) \<le> 1"
    "length (filter (\<lambda>l. snd l = ''submit'') (map ev_label (fst (notebook w)))) \<le> 1"
    by simp_all
qed

lemma notebook_submit:
  assumes "(c, C_submit ex cfg b, out) \<in> set (fst (notebook w))"
  shows "c = 6 \<and> b = True \<and>
    (\<exists>X_train X_validation y_train y_validation.
       snd (cell_sparse_data w) = Inr (X_train, X_validation, y_train, y_validation) \<and>
       (5, C_AutoMLConfig (the_settings X_train y_train X_validation y_validation), None)
         \<in> set (fst (notebook w)) \<and>
       AutoMLConfig w (the_settings X_train y_train X_validation y_validation) = Inr cfg)"
proof -
  let ?ev = "(c, C_submit ex cfg b, out)"
  have label: "ev_label ?ev = (c, ''submit'')"
    by (simp add: ev_label_def ev_cell_def ev_call_def)
  have "?ev \<notin> set (fst (prepare w))"
    using scripted_labels [OF scripted_prepare, of ?ev w] label not_in_script_prepare by auto
  moreover have "?ev \<notin> set (fst (explore w local_run))" for local_run
    using explore_labels [of ?ev w local_run] label not_in_script_explore(1) by auto
  ultimately obtain ex' cfg' where p: "snd (prepare w) = Inr (ex', cfg')"
    and ev: "?ev = (6, C_submit ex' cfg' True,
        case submit w ex' cfg' True of Inl e \<Rightarrow> Some e | Inr a \<Rightarrow> None)"
    using notebook_events [OF assms] by blast
  from ev have eq: "c = 6" "b = True" "cfg' = cfg"
    by simp_all
  from prepare_Inr [OF p] eq prepare_events_notebook [of w] show ?thesis
    by blast
qed

lemma notebook_AutoMLConfig:
  assumes "(c, C_AutoMLConfig s, out) \<in> set (fst (notebook w))"
  shows "c = 5 \<and> (\<exists>X_train X_validation y_train y_validation.
     snd (cell_sparse_data w) = Inr (X_train, X_validation, y_train, y_validation) \<and>
     s = the_settings X_train y_train X_validation y_validation)"
proof -
  let ?ev = "(c, C_AutoMLConfig s, out)"
  have label: "ev_label ?ev = (c, ''AutoMLConfig'')"
    by (simp add: ev_label_def ev_cell_def ev_call_def)
  have "?ev \<notin> set (fst (explore w local_run))" for local_run
    using explore_labels [of ?ev w local_run] label not_in_script_explore(2) by auto
  with notebook_events [OF assms] have "?ev \<in> set (fst (prepare w))"
    by auto
  then show ?thesis
    by (rule prepare_AutoMLConfig)
qed

text \<open>
  C3. The configuration the notebook submits is the object the one \<^verbatim>\<open>AutoMLConfig(...)\<close>
  call of code cell 5 returned, passed on as it is: whenever \<^verbatim>\<open>experiment.submit\<close> is
  called, it is called in cell 6 with \<^verbatim>\<open>show_output=True\<close> and with the value that
  \<^verbatim>\<open>AutoMLConfig\<close> returned for the keyword arguments of the source, and the log holds at
  most one \<^verbatim>\<open>AutoMLConfig\<close> and one \<^verbatim>\<open>submit\<close> call. The keyword arguments are: task
  \<^verbatim>\<open>'classification'\<close>, primary metric \<^verbatim>\<open>'AUC_weighted'\<close>, \<^verbatim>\<open>max_time_sec=3600\<close>,
  \<^verbatim>\<open>iterations=5\<close>, \<^verbatim>\<open>preprocess=False\<close>, \<^verbatim>\<open>X\<close>, \<^verbatim>\<open>y\<close>, \<^verbatim>\<open>X_valid\<close> and \<^verbatim>\<open>y_valid\<close> the
  four values that code cell 4 bound to \<^verbatim>\<open>X_train\<close>, \<^verbatim>\<open>y_train\<close>, \<^verbatim>\<open>X_validation\<close> and
  \<^verbatim>\<open>y_validation\<close>, \<^verbatim>\<open>path=project_folder\<close>, and besides these the log file name
  \<^verbatim>\<open>debug_log='automl_errors.log'\<close> and \<^verbatim>\<open>verbosity=logging.INFO\<close>.
\<close>

theorem submitted_config:
  "((c, C_submit ex cfg b, out) \<in> set (fst (notebook w)) \<longrightarrow>
      c = 6 \<and> b = True \<and>
      (\<exists>X_train X_validation y_train y_validation.
         snd (cell_sparse_data w) = Inr (X_train, X_validation, y_train, y_validation) \<and>
         (5, C_AutoMLConfig (the_settings X_train y_train X_validation y_validation), None)
           \<in> set (fst (notebook w)) \<and>
         AutoMLConfig w (the_settings X_train y_train X_validation y_validation) = Inr cfg)) \<and>
   ((c', C_AutoMLConfig s, out') \<in> set (fst (notebook w)) \<longrightarrow>
      c' = 5 \<and>
      (\<exists>X_train X_validation y_train y_validation.
         snd (cell_sparse_data w) = Inr (X_train, X_validation, y_train, y_validation) \<and>
         s = the_settings X_train y_train X_validation y_validation)) \<and>
   length (filter (\<lambda>l. snd l = ''AutoMLConfig'') (map ev_label (fst (notebook w)))) \<le> 1 \<and>
   length (filter (\<lambda>l. snd l = ''submit'') (map ev_label (fst (notebook w)))) \<le> 1 \<and>
   the_settings X_train y_train X_validation y_validation =
     \<lparr>task = ''classification'', debug_log = ''automl_errors.log'',
      primary_metric = ''AUC_weighted'', max_time_sec = 3600, iterations = 5,
      preprocess = False, verbosity = 20, cfg_X = X_train, cfg_y = y_train,
      cfg_X_valid = X_validation, cfg_y_valid = y_validation,
      cfg_path = ''./sample_projects/automl-local-missing-data''\<rparr>"
proof (intro conjI)
  show "(c, C_submit ex cfg b, out) \<in> set (fst (notebook w)) \<longrightarrow>
      c = 6 \<and> b = True \<and>
      (\<exists>X_train X_validation y_train y_validation.
         snd (cell_sparse_data w) = Inr (X_train, X_validation, y_train, y_validation) \<and>
         (5, C_AutoMLConfig (the_settings X_train y_train X_validation y_validation), None)
           \<in> set (fst (notebook w)) \<and>
         AutoMLConfig w (the_settings X_train y_train X_validation y_validation) = Inr cfg)"
    using notebook_submit [of c ex cfg b out w] by blast
  show "(c', C_AutoMLConfig s, out') \<in> set (fst (notebook w)) \<longrightarrow>
      c' = 5 \<and>
      (\<exists>X_train X_validation y_train y_validation.
         snd (cell_sparse_data w) = Inr (X_train, X_validation, y_train, y_validation) \<and>
         s = the_settings X_train y_train X_validation y_validation)"
    using notebook_AutoMLConfig [of c' s out' w] by blast
  show "length (filter (\<lambda>l. snd l = ''AutoMLConfig'') (map ev_label (fst (notebook w)))) \<le> 1"
    by (rule single_config_and_submit)
  show "length (filter (\<lambda>l. snd l = ''submit'') (map ev_label (fst (notebook w)))) \<le> 1"
    by (rule single_config_and_submit)
  show "the_settings X_train y_train X_validation y_validation =
     \<lparr>task = ''classification'', debug_log = ''automl_errors.log'',
      primary_metric = ''AUC_weighted'', max_time_sec = 3600, iterations = 5,
      preprocess = False, verbosity = 20, cfg_X = X_train, cfg_y = y_train,
      cfg_X_valid = X_validation, cfg_y_valid = y_validation,
      cfg_path = ''./sample_projects/automl-local-missing-data''\<rparr>"
    by (simp add: the_settings_def project_folder_def)
qed

theorem submitted_config_witness:
  "(6, C_submit demo_experiment demo_config True, None)
     \<in> set (fst (notebook (demo_world [child_a, child_b, child_c]))) \<and>
   (\<exists>X_train X_validation y_train y_validation.
      snd (cell_sparse_data (demo_world [child_a, child_b, child_c])) =
        Inr (X_train, X_validation, y_train, y_validation) \<and>
      (5, C_AutoMLConfig (the_settings X_train y_train X_validation y_validation), None)
        \<in> set (fst (notebook (demo_world [child_a, child_b, child_c]))) \<and>
      AutoMLConfig (demo_world [child_a, child_b, child_c])
        (the_settings X_train y_train X_validation y_validation) = Inr demo_config)"
  using submitted_config [of 6 demo_experiment demo_config True None
      "demo_world [child_a, child_b, child_c]"] submit_demo [of "[child_a, child_b, child_c]"]
  by blast

subsection \<open>What the returned records can change\<close>














lemmas demo_defs = demo_world_def demo_run_def demo_model_def demo_transform_def
  fetch_train_args_def fetch_test_args_def child_a_def child_b_def child_c_def
  child_b_renumbered_def other_run_def dict_getitem_def int_of_str_def float_metrics_def
  decimal_int_0 decimal_int_1 decimal_int_x list_getitem_def categories_def












lemma take_append_rest: "xs @ ys = take k xs @ (drop k xs @ ys)"
  by simp




subsection \<open>Where the data of a call comes from\<close>

lemma cell_sparse_data_Inr:
  assumes "snd (cell_sparse_data w) = Inr (X_train, X_validation, y_train, y_validation)"
  shows "\<exists>b docs_train docs_validation v.
     fetch_20newsgroups w fetch_train_args = Inr b \<and>
     train_test_split w (data b) (target b) (33 / 100) 42 =
       Inr (docs_train, docs_validation, y_train, y_validation) \<and>
     HashingVectorizer w train_vectorizer_params = Inr v \<and>
     transform w v docs_train = Inr X_train \<and>
     transform w v docs_validation = Inr X_validation"
  using assms unfolding cell_sparse_data_def
  by (auto simp: event_simps)

lemma prepare_transform:
  assumes "(c, C_transform v docs, out) \<in> set (fst (prepare w))"
  shows "c = 4 \<and> HashingVectorizer w train_vectorizer_params = Inr v \<and>
     out = (case transform w v docs of Inl e \<Rightarrow> Some e | Inr m \<Rightarrow> None) \<and>
     (\<exists>b docs_train docs_validation y_train y_validation.
        fetch_20newsgroups w fetch_train_args = Inr b \<and>
        train_test_split w (data b) (target b) (33 / 100) 42 =
          Inr (docs_train, docs_validation, y_train, y_validation) \<and>
        (docs = docs_train \<or> docs = docs_validation))"
  using assms unfolding prepare_def cell_defs Let_def
  by (auto simp: event_simps)

lemma prepare_other_calls:
  "(c, C_predict m X, out) \<notin> set (fst (prepare w))"
  "(c, C_ConfusionMatrix yt yp, out) \<notin> set (fst (prepare w))"
  "(c, C_HashingVectorizer p, out) \<in> set (fst (prepare w)) \<Longrightarrow>
     c = 4 \<and> p = train_vectorizer_params"
  "(c, C_fetch_20newsgroups a, out) \<in> set (fst (prepare w)) \<Longrightarrow>
     c = 4 \<and> a = fetch_train_args"
  unfolding prepare_def cell_defs Let_def
  by (auto simp: event_simps)

lemma cell_test_events:
  "(c, C_transform v docs, out) \<in> set (fst (cell_test w m)) \<Longrightarrow>
     c = 14 \<and> HashingVectorizer w test_vectorizer_params = Inr v \<and>
     out = (case transform w v docs of Inl e \<Rightarrow> Some e | Inr X \<Rightarrow> None) \<and>
     (\<exists>b. fetch_20newsgroups w fetch_test_args = Inr b \<and> docs = data b)"
  "(c, C_predict m' X_test, out) \<in> set (fst (cell_test w m)) \<Longrightarrow>
     c = 14 \<and> m' = m \<and>
     (\<exists>b v. fetch_20newsgroups w fetch_test_args = Inr b \<and>
        HashingVectorizer w test_vectorizer_params = Inr v \<and>
        transform w v (data b) = Inr X_test)"
  "(c, C_ConfusionMatrix yt yp, out) \<in> set (fst (cell_test w m)) \<Longrightarrow>
     c = 14 \<and>
     (\<exists>b v X_test ypred. fetch_20newsgroups w fetch_test_args = Inr b \<and>
        HashingVectorizer w test_vectorizer_params = Inr v \<and>
        transform w v (data b) = Inr X_test \<and> predict m X_test = Inr ypred \<and>
        label_strings ypred = Inr yp \<and> label_strings (target b) = Inr yt)"
  "(c, C_HashingVectorizer p, out) \<in> set (fst (cell_test w m)) \<Longrightarrow>
     c = 14 \<and> p = test_vectorizer_params"
  "(c, C_fetch_20newsgroups a, out) \<in> set (fst (cell_test w m)) \<Longrightarrow>
     c = 14 \<and> a = fetch_test_args"
  unfolding cell_test_def Let_def
  by (auto simp: event_simps)

lemma cell_children_names:
  assumes "ev \<in> set (fst (cell_children w local_run))"
  shows "call_name (ev_call ev) \<in> {''get_children'', ''get_properties'', ''get_metrics'', ''display''}"
proof -
  from scripted_labels [OF scripted_cell_children assms] set_script_loop [of "children_count local_run"]
  show ?thesis
    by (auto simp: ev_label_def)
qed

lemma explore_test_events:
  assumes "ev \<in> set (fst (explore w local_run))"
    and "call_name (ev_call ev) \<in>
      {''transform'', ''predict'', ''ConfusionMatrix'', ''HashingVectorizer'', ''fetch_20newsgroups''}"
  shows "\<exists>best m. get_output local_run = Inr (best, m) \<and> ev \<in> set (fst (cell_test w m))"
proof -
  from assms(2) have "ev \<notin> set (fst (cell_children w local_run))"
    using cell_children_names [of ev w local_run] by auto
  with assms show ?thesis
    unfolding explore_def cell_widget_def cell_best_def cell_register_def
    by (auto simp: event_simps ev_call_def)
qed

lemma notebook_test_events:
  assumes "ev \<in> set (fst (notebook w))" and "ev \<notin> set (fst (prepare w))"
    and "call_name (ev_call ev) \<in>
      {''transform'', ''predict'', ''ConfusionMatrix'', ''HashingVectorizer'', ''fetch_20newsgroups''}"
  shows "\<exists>ex cfg local_run best m. submit w ex cfg True = Inr local_run \<and>
    get_output local_run = Inr (best, m) \<and> ev \<in> set (fst (cell_test w m))"
proof -
  from notebook_events [OF assms(1)] assms(2) obtain ex cfg where
    "ev = (6, C_submit ex cfg True,
        case submit w ex cfg True of Inl e \<Rightarrow> Some e | Inr a \<Rightarrow> None) \<or>
     (\<exists>local_run. submit w ex cfg True = Inr local_run \<and> ev \<in> set (fst (explore w local_run)))"
    by blast
  with assms(3) obtain local_run where "submit w ex cfg True = Inr local_run"
    "ev \<in> set (fst (explore w local_run))"
    by (auto simp: ev_call_def)
  with explore_test_events [OF _ assms(3)] show ?thesis
    by blast
qed

subsection \<open>The two vectorizers\<close>

lemma vectorizer_params_equal: "test_vectorizer_params = train_vectorizer_params"
  by (simp add: test_vectorizer_params_def train_vectorizer_params_def)

lemma notebook_transform:
  assumes "(c, C_transform v docs, out) \<in> set (fst (notebook w))"
  shows "HashingVectorizer w train_vectorizer_params = Inr v \<and>
     out = (case transform w v docs of Inl e \<Rightarrow> Some e | Inr X \<Rightarrow> None) \<and>
     (c = 4 \<and>
      (\<exists>b docs_train docs_validation y_train y_validation.
         fetch_20newsgroups w fetch_train_args = Inr b \<and>
         train_test_split w (data b) (target b) (33 / 100) 42 =
           Inr (docs_train, docs_validation, y_train, y_validation) \<and>
         (docs = docs_train \<or> docs = docs_validation)) \<or>
      c = 14 \<and> (\<exists>b. fetch_20newsgroups w fetch_test_args = Inr b \<and> docs = data b))"
proof (cases "(c, C_transform v docs, out) \<in> set (fst (prepare w))")
  case True
  from prepare_transform [OF this] show ?thesis
    by blast
next
  case False
  have "call_name (ev_call (c, C_transform v docs, out)) \<in>
      {''transform'', ''predict'', ''ConfusionMatrix'', ''HashingVectorizer'', ''fetch_20newsgroups''}"
    by (simp add: ev_call_def)
  from notebook_test_events [OF assms False this] obtain m where
    "(c, C_transform v docs, out) \<in> set (fst (cell_test w m))"
    by blast
  from cell_test_events(1) [OF this] show ?thesis
    by (simp add: vectorizer_params_equal)
qed

lemma notebook_HashingVectorizer:
  assumes "(c, C_HashingVectorizer p, out) \<in> set (fst (notebook w))"
  shows "p = train_vectorizer_params"
proof (cases "(c, C_HashingVectorizer p, out) \<in> set (fst (prepare w))")
  case True
  from prepare_other_calls(3) [OF this] show ?thesis
    by simp
next
  case False
  have "call_name (ev_call (c, C_HashingVectorizer p, out)) \<in>
      {''transform'', ''predict'', ''ConfusionMatrix'', ''HashingVectorizer'', ''fetch_20newsgroups''}"
    by (simp add: ev_call_def)
  from notebook_test_events [OF assms False this] obtain m where
    "(c, C_HashingVectorizer p, out) \<in> set (fst (cell_test w m))"
    by blast
  from cell_test_events(4) [OF this] show ?thesis
    by (simp add: vectorizer_params_equal)
qed

lemma notebook_predict:
  assumes "(c, C_predict m X_test, out) \<in> set (fst (notebook w))"
  shows "c = 14 \<and>
    (\<exists>ex cfg local_run best. submit w ex cfg True = Inr local_run \<and>
       get_output local_run = Inr (best, m)) \<and>
    (\<exists>b v. fetch_20newsgroups w fetch_test_args = Inr b \<and>
       HashingVectorizer w test_vectorizer_params = Inr v \<and>
       transform w v (data b) = Inr X_test)"
proof -
  have "call_name (ev_call (c, C_predict m X_test, out)) \<in>
      {''transform'', ''predict'', ''ConfusionMatrix'', ''HashingVectorizer'', ''fetch_20newsgroups''}"
    by (simp add: ev_call_def)
  from notebook_test_events [OF assms prepare_other_calls(1) this]
  obtain ex cfg local_run best m' where
    r: "submit w ex cfg True = Inr local_run" "get_output local_run = Inr (best, m')"
    and ev: "(c, C_predict m X_test, out) \<in> set (fst (cell_test w m'))"
    by blast
  from cell_test_events(2) [OF ev] r show ?thesis
    by blast
qed

lemma transform_shape:
  assumes "sklearn_contract w" and "HashingVectorizer w train_vectorizer_params = Inr v"
    and "transform w v docs = Inr X"
  shows "shape X = (length docs, 2 ^ 16)"
proof -
  from assms(1) assms(2) have "vec_params v = train_vectorizer_params"
    unfolding sklearn_contract_def by blast
  moreover from assms(1) assms(3)
  have "length (rows X) = length docs \<and> n_cols X = n_features (vec_params v)"
    unfolding sklearn_contract_def by blast
  ultimately show ?thesis
    by (simp add: shape_def train_vectorizer_params_def)
qed

lemma sklearn_contract_demo: "sklearn_contract (demo_world cs)"
proof -
  have split: "length (take 2 xs) = length (take 2 ys) \<and> length (drop 2 xs) = length (drop 2 ys) \<and>
      set (zip (take 2 xs) (take 2 ys)) \<subseteq> set (zip xs ys) \<and>
      set (zip (drop 2 xs) (drop 2 ys)) \<subseteq> set (zip xs ys)"
    if "length xs = length ys" for xs :: "string list" and ys :: "int list"
  proof -
    have "zip (take 2 xs) (take 2 ys) = take 2 (zip xs ys)"
      by (simp add: take_zip)
    moreover have "zip (drop 2 xs) (drop 2 ys) = drop 2 (zip xs ys)"
      by (simp add: drop_zip)
    ultimately show ?thesis
      using that by (simp add: set_take_subset set_drop_subset)
  qed
  show ?thesis
    unfolding sklearn_contract_def
    using split by (auto simp: demo_world_def demo_transform_def)
qed

lemma notebook_demo_events:
  "(4, C_transform \<lparr>vec_params = train_vectorizer_params\<rparr> [''god'', ''pixel''], None)
     \<in> set (fst (notebook (demo_world [child_a, child_b, child_c])))"
  "(14, C_transform \<lparr>vec_params = test_vectorizer_params\<rparr> [''moon'', ''faith''], None)
     \<in> set (fst (notebook (demo_world [child_a, child_b, child_c])))"
  "(14, C_HashingVectorizer test_vectorizer_params, None)
     \<in> set (fst (notebook (demo_world [child_a, child_b, child_c])))"
  "(5, C_AutoMLConfig (the_settings demo_X_train [0, 2] demo_X_validation [3]), None)
     \<in> set (fst (notebook (demo_world [child_a, child_b, child_c])))"
  "(14, C_predict demo_model demo_X_test, None)
     \<in> set (fst (notebook (demo_world [child_a, child_b, child_c])))"
  "(14, C_ConfusionMatrix [''sci.space'', ''talk.religion.misc''] [''sci.space'', ''sci.space''],
     None) \<in> set (fst (notebook (demo_world [child_a, child_b, child_c])))"
  by (simp_all add: notebook_def cell_defs run_simps demo_defs train_vectorizer_params_def
      test_vectorizer_params_def demo_X_train_def demo_X_validation_def demo_X_test_def)

text \<open>
  C8. The vectorizer of the evaluation cell is constructed with the arguments of the
  vectorizer of cell 4, \<^verbatim>\<open>stop_words='english'\<close>, \<^verbatim>\<open>alternate_sign=False\<close>,
  \<^verbatim>\<open>n_features=2**16\<close>, and every vectorizer the notebook constructs has these; the
  library's constructor being a function of its arguments (hashing keeps no state), all
  \<open>transform\<close> calls of a run are made on the same vectorizer and so give every document
  the same row. Given scikit-learn's contract, each matrix a \<open>transform\<close> call returns has
  one row per document and \<open>2 ^ 16\<close> columns; these matrices are \<open>X_train\<close> and
  \<open>X_validation\<close>, as passed to \<^verbatim>\<open>AutoMLConfig\<close>, and \<open>X_test\<close>, as passed to \<open>predict\<close>.
\<close>

theorem vectorizers_agree:
  "test_vectorizer_params = train_vectorizer_params \<and>
   train_vectorizer_params =
     \<lparr>stop_words = ''english'', alternate_sign = False, n_features = 2 ^ 16\<rparr> \<and>
   ((c, C_HashingVectorizer p, out) \<in> set (fst (notebook w)) \<longrightarrow>
      p = train_vectorizer_params) \<and>
   ((c1, C_transform v1 docs1, out1) \<in> set (fst (notebook w)) \<and>
    (c2, C_transform v2 docs2, out2) \<in> set (fst (notebook w)) \<longrightarrow>
      v1 = v2 \<and> (\<forall>d. transform w v1 [d] = transform w v2 [d])) \<and>
   (sklearn_contract w \<and> (c3, C_transform v docs, None) \<in> set (fst (notebook w)) \<longrightarrow>
      (\<exists>X. transform w v docs = Inr X \<and> shape X = (length docs, 2 ^ 16))) \<and>
   (sklearn_contract w \<and> (c4, C_AutoMLConfig s, out4) \<in> set (fst (notebook w)) \<longrightarrow>
      (\<exists>v docs_train docs_validation.
         transform w v docs_train = Inr (cfg_X s) \<and>
         transform w v docs_validation = Inr (cfg_X_valid s) \<and>
         shape (cfg_X s) = (length docs_train, 2 ^ 16) \<and>
         shape (cfg_X_valid s) = (length docs_validation, 2 ^ 16))) \<and>
   (sklearn_contract w \<and> (c5, C_predict m X_test, out5) \<in> set (fst (notebook w)) \<longrightarrow>
      (\<exists>v b. fetch_20newsgroups w fetch_test_args = Inr b \<and>
         transform w v (data b) = Inr X_test \<and>
         shape X_test = (length (data b), 2 ^ 16)))"
proof -
  have 1: "test_vectorizer_params = train_vectorizer_params"
    by (rule vectorizer_params_equal)
  have 2: "train_vectorizer_params =
     \<lparr>stop_words = ''english'', alternate_sign = False, n_features = 2 ^ 16\<rparr>"
    by (simp add: train_vectorizer_params_def)
  have 3: "p = train_vectorizer_params"
    if "(c, C_HashingVectorizer p, out) \<in> set (fst (notebook w))"
    using that by (rule notebook_HashingVectorizer)
  have 4: "v1 = v2 \<and> (\<forall>d. transform w v1 [d] = transform w v2 [d])"
    if a: "(c1, C_transform v1 docs1, out1) \<in> set (fst (notebook w)) \<and>
      (c2, C_transform v2 docs2, out2) \<in> set (fst (notebook w))"
  proof -
    from a have "HashingVectorizer w train_vectorizer_params = Inr v1"
      "HashingVectorizer w train_vectorizer_params = Inr v2"
      using notebook_transform by blast+
    then show ?thesis
      by simp
  qed
  have 5: "\<exists>X. transform w v docs = Inr X \<and> shape X = (length docs, 2 ^ 16)"
    if a: "sklearn_contract w \<and> (c3, C_transform v docs, None) \<in> set (fst (notebook w))"
  proof -
  from a notebook_transform [of c3 v docs None w]
  have v: "HashingVectorizer w train_vectorizer_params = Inr v"
    and "None = (case transform w v docs of Inl e \<Rightarrow> Some e | Inr X \<Rightarrow> None)"
    by blast+
  then obtain X where "transform w v docs = Inr X"
    by (cases "transform w v docs") auto
  with a v transform_shape show ?thesis
    by blast
  qed
  have 6: "\<exists>v docs_train docs_validation.
         transform w v docs_train = Inr (cfg_X s) \<and>
         transform w v docs_validation = Inr (cfg_X_valid s) \<and>
         shape (cfg_X s) = (length docs_train, 2 ^ 16) \<and>
         shape (cfg_X_valid s) = (length docs_validation, 2 ^ 16)"
    if a: "sklearn_contract w \<and> (c4, C_AutoMLConfig s, out4) \<in> set (fst (notebook w))"
  proof -
  from a notebook_AutoMLConfig [of c4 s out4 w] obtain X_train X_validation y_train y_validation
    where d: "snd (cell_sparse_data w) = Inr (X_train, X_validation, y_train, y_validation)"
      and s: "s = the_settings X_train y_train X_validation y_validation"
    by blast
  from cell_sparse_data_Inr [OF d] obtain v docs_train docs_validation where
    v: "HashingVectorizer w train_vectorizer_params = Inr v"
    and t: "transform w v docs_train = Inr X_train" "transform w v docs_validation = Inr X_validation"
    by blast
  from s have "cfg_X s = X_train" "cfg_X_valid s = X_validation"
    by (simp_all add: the_settings_def)
  with a v t transform_shape [of w v]
  show ?thesis
    by blast
  qed
  have 7: "\<exists>v b. fetch_20newsgroups w fetch_test_args = Inr b \<and>
         transform w v (data b) = Inr X_test \<and>
         shape X_test = (length (data b), 2 ^ 16)"
    if a: "sklearn_contract w \<and> (c5, C_predict m X_test, out5) \<in> set (fst (notebook w))"
  proof -
  from a notebook_predict [of c5 m X_test out5 w] obtain b v where
    b: "fetch_20newsgroups w fetch_test_args = Inr b"
    and v: "HashingVectorizer w test_vectorizer_params = Inr v"
    and t: "transform w v (data b) = Inr X_test"
    by blast
  from v have "HashingVectorizer w train_vectorizer_params = Inr v"
    by (simp add: vectorizer_params_equal)
  with a b t transform_shape [of w v]
  show ?thesis
    by blast
  qed
  from 1 2 3 4 5 6 7 show ?thesis
    by blast
qed

theorem vectorizers_agree_witness:
  "sklearn_contract (demo_world [child_a, child_b, child_c]) \<and>
   (14, C_HashingVectorizer test_vectorizer_params, None)
     \<in> set (fst (notebook (demo_world [child_a, child_b, child_c]))) \<and>
   test_vectorizer_params = train_vectorizer_params \<and>
   (4, C_transform \<lparr>vec_params = train_vectorizer_params\<rparr> [''god'', ''pixel''], None)
     \<in> set (fst (notebook (demo_world [child_a, child_b, child_c]))) \<and>
   (14, C_transform \<lparr>vec_params = test_vectorizer_params\<rparr> [''moon'', ''faith''], None)
     \<in> set (fst (notebook (demo_world [child_a, child_b, child_c]))) \<and>
   \<lparr>vec_params = train_vectorizer_params\<rparr> = \<lparr>vec_params = test_vectorizer_params\<rparr> \<and>
   (\<exists>X. transform (demo_world [child_a, child_b, child_c])
          \<lparr>vec_params = test_vectorizer_params\<rparr> [''moon'', ''faith''] = Inr X \<and>
        shape X = (length [''moon'', ''faith''], 2 ^ 16)) \<and>
   (5, C_AutoMLConfig (the_settings demo_X_train [0, 2] demo_X_validation [3]), None)
     \<in> set (fst (notebook (demo_world [child_a, child_b, child_c]))) \<and>
   (\<exists>v docs_train docs_validation.
      transform (demo_world [child_a, child_b, child_c]) v docs_train =
        Inr (cfg_X (the_settings demo_X_train [0, 2] demo_X_validation [3])) \<and>
      transform (demo_world [child_a, child_b, child_c]) v docs_validation =
        Inr (cfg_X_valid (the_settings demo_X_train [0, 2] demo_X_validation [3])) \<and>
      shape (cfg_X (the_settings demo_X_train [0, 2] demo_X_validation [3])) =
        (length docs_train, 2 ^ 16) \<and>
      shape (cfg_X_valid (the_settings demo_X_train [0, 2] demo_X_validation [3])) =
        (length docs_validation, 2 ^ 16)) \<and>
   (14, C_predict demo_model demo_X_test, None)
     \<in> set (fst (notebook (demo_world [child_a, child_b, child_c]))) \<and>
   (\<exists>v b. fetch_20newsgroups (demo_world [child_a, child_b, child_c]) fetch_test_args = Inr b \<and>
      transform (demo_world [child_a, child_b, child_c]) v (data b) = Inr demo_X_test \<and>
      shape demo_X_test = (length (data b), 2 ^ 16))"
proof -
  let ?w = "demo_world [child_a, child_b, child_c]"
  note th = vectorizers_agree [where w = ?w and c = 14 and p = test_vectorizer_params
      and out = None and ?c1.0 = 4 and ?v1.0 = "\<lparr>vec_params = train_vectorizer_params\<rparr>"
      and ?docs1.0 = "[''god'', ''pixel'']" and ?out1.0 = None and ?c2.0 = 14
      and ?v2.0 = "\<lparr>vec_params = test_vectorizer_params\<rparr>" and ?docs2.0 = "[''moon'', ''faith'']"
      and ?out2.0 = None and ?c3.0 = 14 and v = "\<lparr>vec_params = test_vectorizer_params\<rparr>"
      and docs = "[''moon'', ''faith'']" and ?c4.0 = 5
      and s = "the_settings demo_X_train [0, 2] demo_X_validation [3]" and ?out4.0 = None
      and ?c5.0 = 14 and m = demo_model and X_test = demo_X_test and ?out5.0 = None]
  from th sklearn_contract_demo [of "[child_a, child_b, child_c]"] notebook_demo_events
  show ?thesis
    by blast
qed

subsection \<open>Rows and labels\<close>

lemma labelled_rows_split:
  assumes c: "sklearn_contract w"
    and b: "fetch_20newsgroups w a = Inr b"
    and split: "train_test_split w (data b) (target b) t seed = Inr (docs_a, docs_b, ys_a, ys_b)"
    and Xa: "transform w v docs_a = Inr Xa"
    and Xb: "transform w v docs_b = Inr Xb"
  shows "labelled_rows w v b Xa ys_a \<and> labelled_rows w v b Xb ys_b"
proof -
  from c b have len: "length (data b) = length (target b)"
    unfolding sklearn_contract_def by blast
  with c split have parts: "length docs_a = length ys_a" "length docs_b = length ys_b"
    "set (zip docs_a ys_a) \<subseteq> set (zip (data b) (target b))"
    "set (zip docs_b ys_b) \<subseteq> set (zip (data b) (target b))"
    unfolding sklearn_contract_def by blast+
  have rows: "labelled_rows w v b X ys"
    if X: "transform w v docs = Inr X" and l: "length docs = length ys"
      and z: "set (zip docs ys) \<subseteq> set (zip (data b) (target b))"
    for docs X ys
  proof -
    from c X have t: "length (rows X) = length docs"
      "\<forall>i<length docs. transform w v [docs ! i] = Inr \<lparr>n_cols = n_cols X, rows = [rows X ! i]\<rparr>"
      unfolding sklearn_contract_def by blast+
    have "\<exists>d. (d, ys ! i) \<in> set (zip (data b) (target b)) \<and>
        transform w v [d] = Inr \<lparr>n_cols = n_cols X, rows = [rows X ! i]\<rparr>"
      if i: "i < length ys" for i
    proof -
      from i l have "(docs ! i, ys ! i) \<in> set (zip docs ys)"
        by (auto simp: in_set_zip)
      with z have "(docs ! i, ys ! i) \<in> set (zip (data b) (target b))"
        by blast
      moreover from t(2) i l
      have "transform w v [docs ! i] = Inr \<lparr>n_cols = n_cols X, rows = [rows X ! i]\<rparr>"
        by simp
      ultimately show ?thesis
        by blast
    qed
    with t(1) l show ?thesis
      unfolding labelled_rows_def by simp
  qed
  from rows [OF Xa parts(1) parts(3)] rows [OF Xb parts(2) parts(4)] show ?thesis ..
qed

lemma labelled_rows_whole:
  assumes c: "sklearn_contract w"
    and b: "fetch_20newsgroups w a = Inr b"
    and X: "transform w v (data b) = Inr X"
  shows "labelled_rows w v b X (target b)"
proof -
  from c b have len: "length (data b) = length (target b)"
    unfolding sklearn_contract_def by blast
  from c X have t: "length (rows X) = length (data b)"
    "\<forall>i<length (data b). transform w v [data b ! i] = Inr \<lparr>n_cols = n_cols X, rows = [rows X ! i]\<rparr>"
    unfolding sklearn_contract_def by blast+
  have "\<exists>d. (d, target b ! i) \<in> set (zip (data b) (target b)) \<and>
      transform w v [d] = Inr \<lparr>n_cols = n_cols X, rows = [rows X ! i]\<rparr>"
    if i: "i < length (target b)" for i
  proof -
    from i len have "(data b ! i, target b ! i) \<in> set (zip (data b) (target b))"
      by (auto simp: in_set_zip)
    moreover from t(2) i len
    have "transform w v [data b ! i] = Inr \<lparr>n_cols = n_cols X, rows = [rows X ! i]\<rparr>"
      by simp
    ultimately show ?thesis
      by blast
  qed
  with t(1) len show ?thesis
    unfolding labelled_rows_def by simp
qed

lemma cell_sparse_data_labelled:
  assumes c: "sklearn_contract w"
    and d: "snd (cell_sparse_data w) = Inr (X_train, X_validation, y_train, y_validation)"
  shows "\<exists>b v. fetch_20newsgroups w fetch_train_args = Inr b \<and>
     HashingVectorizer w train_vectorizer_params = Inr v \<and>
     labelled_rows w v b X_train y_train \<and> labelled_rows w v b X_validation y_validation"
proof -
  from cell_sparse_data_Inr [OF d] obtain b docs_train docs_validation v where
    b: "fetch_20newsgroups w fetch_train_args = Inr b"
    and s: "train_test_split w (data b) (target b) (33 / 100) 42 =
       Inr (docs_train, docs_validation, y_train, y_validation)"
    and v: "HashingVectorizer w train_vectorizer_params = Inr v"
    and t: "transform w v docs_train = Inr X_train" "transform w v docs_validation = Inr X_validation"
    by blast
  from labelled_rows_split [OF c b s t] b v show ?thesis
    by blast
qed

lemma notebook_ConfusionMatrix:
  assumes "(c, C_ConfusionMatrix yt yp, out) \<in> set (fst (notebook w))"
  shows "c = 14 \<and>
    (\<exists>ex cfg local_run best m b v X_test ypred.
       submit w ex cfg True = Inr local_run \<and> get_output local_run = Inr (best, m) \<and>
       fetch_20newsgroups w fetch_test_args = Inr b \<and>
       HashingVectorizer w test_vectorizer_params = Inr v \<and>
       transform w v (data b) = Inr X_test \<and> predict m X_test = Inr ypred \<and>
       label_strings ypred = Inr yp \<and> label_strings (target b) = Inr yt)"
proof -
  have "call_name (ev_call (c, C_ConfusionMatrix yt yp, out)) \<in>
      {''transform'', ''predict'', ''ConfusionMatrix'', ''HashingVectorizer'', ''fetch_20newsgroups''}"
    by (simp add: ev_call_def)
  from notebook_test_events [OF assms prepare_other_calls(2) this]
  obtain ex cfg local_run best m where
    r: "submit w ex cfg True = Inr local_run" "get_output local_run = Inr (best, m)"
    and ev: "(c, C_ConfusionMatrix yt yp, out) \<in> set (fst (cell_test w m))"
    by blast
  from cell_test_events(3) [OF ev] r show ?thesis
    by blast
qed

lemma cell_sparse_data_returns:
  "snd (cell_sparse_data w) = Inr (X_train, X_validation, y_train, y_validation) \<longleftrightarrow>
     (\<exists>b docs_train docs_validation v.
        fetch_20newsgroups w fetch_train_args = Inr b \<and>
        train_test_split w (data b) (target b) (33 / 100) 42 =
          Inr (docs_train, docs_validation, y_train, y_validation) \<and>
        HashingVectorizer w train_vectorizer_params = Inr v \<and>
        transform w v docs_train = Inr X_train \<and>
        transform w v docs_validation = Inr X_validation \<and>
        display w (D_summary (shape X_train) (shape X_validation)) = Inr ())"
  unfolding cell_sparse_data_def
  by (auto simp: event_simps)

text \<open>
  C6, as amended. The notebook enforces no invariant on its data. Cell 4 returns the two
  matrices and the two label vectors exactly when its six library calls return them,
  whatever their sizes, and the configuration is built from the four as cell 4 bound them.
  That rows and labels are aligned is what the libraries provide. Given scikit-learn's
  contract, every pair of a feature matrix and a label vector that the notebook builds is
  aligned: as bound by cell 4 and as passed to \<^verbatim>\<open>AutoMLConfig\<close>, and so as submitted,
  \<open>X_train\<close> has as many rows as \<open>y_train\<close> has entries and \<open>X_validation\<close> as many as
  \<open>y_validation\<close>; as passed to \<open>predict\<close>, \<open>X_test\<close> has as many rows as \<open>y_test\<close>, the
  target of the test dataset, whose names are the true labels of the confusion matrix. In
  each pair, row \<open>i\<close> is the row of a document of the fetched dataset whose label there is
  entry \<open>i\<close> of the label vector.
\<close>

theorem rows_and_labels_aligned:
  "(snd (cell_sparse_data w) = Inr (X_train, X_validation, y_train, y_validation) \<longleftrightarrow>
      (\<exists>b docs_train docs_validation v.
         fetch_20newsgroups w fetch_train_args = Inr b \<and>
         train_test_split w (data b) (target b) (33 / 100) 42 =
           Inr (docs_train, docs_validation, y_train, y_validation) \<and>
         HashingVectorizer w train_vectorizer_params = Inr v \<and>
         transform w v docs_train = Inr X_train \<and>
         transform w v docs_validation = Inr X_validation \<and>
         display w (D_summary (shape X_train) (shape X_validation)) = Inr ())) \<and>
   ((c, C_AutoMLConfig s, out) \<in> set (fst (notebook w)) \<longrightarrow>
      c = 5 \<and>
      (\<exists>Xa Xb ya yb. snd (cell_sparse_data w) = Inr (Xa, Xb, ya, yb) \<and>
         s = the_settings Xa ya Xb yb)) \<and>
   (sklearn_contract w \<longrightarrow>
     (snd (cell_sparse_data w) = Inr (X_train, X_validation, y_train, y_validation) \<longrightarrow>
        length (rows X_train) = length y_train \<and>
        length (rows X_validation) = length y_validation) \<and>
     ((c, C_AutoMLConfig s, out) \<in> set (fst (notebook w)) \<longrightarrow>
        length (rows (cfg_X s)) = length (cfg_y s) \<and>
        length (rows (cfg_X_valid s)) = length (cfg_y_valid s) \<and>
        (\<exists>b v. fetch_20newsgroups w fetch_train_args = Inr b \<and>
           HashingVectorizer w train_vectorizer_params = Inr v \<and>
           labelled_rows w v b (cfg_X s) (cfg_y s) \<and>
           labelled_rows w v b (cfg_X_valid s) (cfg_y_valid s))) \<and>
     ((c', C_submit ex cfg show_output, out') \<in> set (fst (notebook w)) \<longrightarrow>
        (\<exists>s'. AutoMLConfig w s' = Inr cfg \<and>
           length (rows (cfg_X s')) = length (cfg_y s') \<and>
           length (rows (cfg_X_valid s')) = length (cfg_y_valid s'))) \<and>
     ((c'', C_predict m X_test, out'') \<in> set (fst (notebook w)) \<longrightarrow>
        (\<exists>b v. fetch_20newsgroups w fetch_test_args = Inr b \<and>
           HashingVectorizer w test_vectorizer_params = Inr v \<and>
           length (rows X_test) = length (target b) \<and>
           labelled_rows w v b X_test (target b))) \<and>
     ((c''', C_ConfusionMatrix yt yp, out''') \<in> set (fst (notebook w)) \<longrightarrow>
        (\<exists>b. fetch_20newsgroups w fetch_test_args = Inr b \<and>
           label_strings (target b) = Inr yt \<and> length yt = length (target b))))"
proof -
  have returns: "snd (cell_sparse_data w) = Inr (X_train, X_validation, y_train, y_validation) \<longleftrightarrow>
      (\<exists>b docs_train docs_validation v.
         fetch_20newsgroups w fetch_train_args = Inr b \<and>
         train_test_split w (data b) (target b) (33 / 100) 42 =
           Inr (docs_train, docs_validation, y_train, y_validation) \<and>
         HashingVectorizer w train_vectorizer_params = Inr v \<and>
         transform w v docs_train = Inr X_train \<and>
         transform w v docs_validation = Inr X_validation \<and>
         display w (D_summary (shape X_train) (shape X_validation)) = Inr ())"
    by (rule cell_sparse_data_returns)
  have flow: "(c, C_AutoMLConfig s, out) \<in> set (fst (notebook w)) \<longrightarrow>
      c = 5 \<and>
      (\<exists>Xa Xb ya yb. snd (cell_sparse_data w) = Inr (Xa, Xb, ya, yb) \<and>
         s = the_settings Xa ya Xb yb)"
    using notebook_AutoMLConfig [of c s out w] by blast
  have aligned: "sklearn_contract w \<longrightarrow>
     (snd (cell_sparse_data w) = Inr (X_train, X_validation, y_train, y_validation) \<longrightarrow>
        length (rows X_train) = length y_train \<and>
        length (rows X_validation) = length y_validation) \<and>
     ((c, C_AutoMLConfig s, out) \<in> set (fst (notebook w)) \<longrightarrow>
        length (rows (cfg_X s)) = length (cfg_y s) \<and>
        length (rows (cfg_X_valid s)) = length (cfg_y_valid s) \<and>
        (\<exists>b v. fetch_20newsgroups w fetch_train_args = Inr b \<and>
           HashingVectorizer w train_vectorizer_params = Inr v \<and>
           labelled_rows w v b (cfg_X s) (cfg_y s) \<and>
           labelled_rows w v b (cfg_X_valid s) (cfg_y_valid s))) \<and>
     ((c', C_submit ex cfg show_output, out') \<in> set (fst (notebook w)) \<longrightarrow>
        (\<exists>s'. AutoMLConfig w s' = Inr cfg \<and>
           length (rows (cfg_X s')) = length (cfg_y s') \<and>
           length (rows (cfg_X_valid s')) = length (cfg_y_valid s'))) \<and>
     ((c'', C_predict m X_test, out'') \<in> set (fst (notebook w)) \<longrightarrow>
        (\<exists>b v. fetch_20newsgroups w fetch_test_args = Inr b \<and>
           HashingVectorizer w test_vectorizer_params = Inr v \<and>
           length (rows X_test) = length (target b) \<and>
           labelled_rows w v b X_test (target b))) \<and>
     ((c''', C_ConfusionMatrix yt yp, out''') \<in> set (fst (notebook w)) \<longrightarrow>
        (\<exists>b. fetch_20newsgroups w fetch_test_args = Inr b \<and>
           label_strings (target b) = Inr yt \<and> length yt = length (target b)))"
  proof
    assume c: "sklearn_contract w"
    have 1: "length (rows X_train) = length y_train \<and>
        length (rows X_validation) = length y_validation"
      if "snd (cell_sparse_data w) = Inr (X_train, X_validation, y_train, y_validation)"
      using cell_sparse_data_labelled [OF c that] unfolding labelled_rows_def by blast
    have 2: "length (rows (cfg_X s)) = length (cfg_y s) \<and>
        length (rows (cfg_X_valid s)) = length (cfg_y_valid s) \<and>
        (\<exists>b v. fetch_20newsgroups w fetch_train_args = Inr b \<and>
           HashingVectorizer w train_vectorizer_params = Inr v \<and>
           labelled_rows w v b (cfg_X s) (cfg_y s) \<and>
           labelled_rows w v b (cfg_X_valid s) (cfg_y_valid s))"
      if "(c, C_AutoMLConfig s, out) \<in> set (fst (notebook w))" for c s out
    proof -
      from notebook_AutoMLConfig [OF that] obtain Xt Xv yt yv where
        d: "snd (cell_sparse_data w) = Inr (Xt, Xv, yt, yv)" and s: "s = the_settings Xt yt Xv yv"
        by blast
      from s have "cfg_X s = Xt" "cfg_y s = yt" "cfg_X_valid s = Xv" "cfg_y_valid s = yv"
        by (simp_all add: the_settings_def)
      with cell_sparse_data_labelled [OF c d] show ?thesis
        unfolding labelled_rows_def by auto
    qed
    have 3: "\<exists>s'. AutoMLConfig w s' = Inr cfg \<and>
        length (rows (cfg_X s')) = length (cfg_y s') \<and>
        length (rows (cfg_X_valid s')) = length (cfg_y_valid s')"
      if "(c', C_submit ex cfg show_output, out') \<in> set (fst (notebook w))"
    proof -
      from notebook_submit [OF that] obtain Xt Xv yt yv where
        "(5, C_AutoMLConfig (the_settings Xt yt Xv yv), None) \<in> set (fst (notebook w))"
        "AutoMLConfig w (the_settings Xt yt Xv yv) = Inr cfg"
        by blast
      with 2 [of 5 "the_settings Xt yt Xv yv" None] show ?thesis
        by blast
    qed
    have 4: "\<exists>b v. fetch_20newsgroups w fetch_test_args = Inr b \<and>
        HashingVectorizer w test_vectorizer_params = Inr v \<and>
        length (rows X_test) = length (target b) \<and> labelled_rows w v b X_test (target b)"
      if "(c'', C_predict m X_test, out'') \<in> set (fst (notebook w))"
    proof -
      from notebook_predict [OF that] obtain b v where
        b: "fetch_20newsgroups w fetch_test_args = Inr b"
        and v: "HashingVectorizer w test_vectorizer_params = Inr v"
        and t: "transform w v (data b) = Inr X_test"
        by blast
      from labelled_rows_whole [OF c b t] b v show ?thesis
        unfolding labelled_rows_def by blast
    qed
    have 5: "\<exists>b. fetch_20newsgroups w fetch_test_args = Inr b \<and>
        label_strings (target b) = Inr yt \<and> length yt = length (target b)"
      if "(c''', C_ConfusionMatrix yt yp, out''') \<in> set (fst (notebook w))"
    proof -
      from notebook_ConfusionMatrix [OF that] obtain b where
        "fetch_20newsgroups w fetch_test_args = Inr b" "label_strings (target b) = Inr yt"
        by blast
      moreover from label_strings_Inr [OF this(2)] have "length yt = length (target b)"
        by simp
      ultimately show ?thesis
        by blast
    qed
    from 1 2 [of c s out] 3 4 5
    show "(snd (cell_sparse_data w) = Inr (X_train, X_validation, y_train, y_validation) \<longrightarrow>
          length (rows X_train) = length y_train \<and>
          length (rows X_validation) = length y_validation) \<and>
       ((c, C_AutoMLConfig s, out) \<in> set (fst (notebook w)) \<longrightarrow>
          length (rows (cfg_X s)) = length (cfg_y s) \<and>
          length (rows (cfg_X_valid s)) = length (cfg_y_valid s) \<and>
          (\<exists>b v. fetch_20newsgroups w fetch_train_args = Inr b \<and>
             HashingVectorizer w train_vectorizer_params = Inr v \<and>
             labelled_rows w v b (cfg_X s) (cfg_y s) \<and>
             labelled_rows w v b (cfg_X_valid s) (cfg_y_valid s))) \<and>
       ((c', C_submit ex cfg show_output, out') \<in> set (fst (notebook w)) \<longrightarrow>
          (\<exists>s'. AutoMLConfig w s' = Inr cfg \<and>
             length (rows (cfg_X s')) = length (cfg_y s') \<and>
             length (rows (cfg_X_valid s')) = length (cfg_y_valid s'))) \<and>
       ((c'', C_predict m X_test, out'') \<in> set (fst (notebook w)) \<longrightarrow>
          (\<exists>b v. fetch_20newsgroups w fetch_test_args = Inr b \<and>
             HashingVectorizer w test_vectorizer_params = Inr v \<and>
             length (rows X_test) = length (target b) \<and>
             labelled_rows w v b X_test (target b))) \<and>
       ((c''', C_ConfusionMatrix yt yp, out''') \<in> set (fst (notebook w)) \<longrightarrow>
          (\<exists>b. fetch_20newsgroups w fetch_test_args = Inr b \<and>
             label_strings (target b) = Inr yt \<and> length yt = length (target b)))"
      by blast
  qed
  show ?thesis
    by (rule conjI [OF returns conjI [OF flow aligned]])
qed

theorem rows_and_labels_aligned_witness:
  "sklearn_contract (demo_world [child_a, child_b, child_c]) \<and>
   snd (cell_sparse_data (demo_world [child_a, child_b, child_c])) =
     Inr (demo_X_train, demo_X_validation, [0, 2], [3]) \<and>
   (\<exists>b docs_train docs_validation v.
      fetch_20newsgroups (demo_world [child_a, child_b, child_c]) fetch_train_args = Inr b \<and>
      train_test_split (demo_world [child_a, child_b, child_c]) (data b) (target b) (33 / 100) 42 =
        Inr (docs_train, docs_validation, [0, 2], [3]) \<and>
      transform (demo_world [child_a, child_b, child_c]) v docs_train = Inr demo_X_train \<and>
      transform (demo_world [child_a, child_b, child_c]) v docs_validation =
        Inr demo_X_validation) \<and>
   length (rows demo_X_train) = length [0, 2 :: int] \<and>
   length (rows demo_X_validation) = length [3 :: int] \<and>
   (5, C_AutoMLConfig (the_settings demo_X_train [0, 2] demo_X_validation [3]), None)
     \<in> set (fst (notebook (demo_world [child_a, child_b, child_c]))) \<and>
   (\<exists>b v. fetch_20newsgroups (demo_world [child_a, child_b, child_c]) fetch_train_args = Inr b \<and>
      HashingVectorizer (demo_world [child_a, child_b, child_c]) train_vectorizer_params = Inr v \<and>
      labelled_rows (demo_world [child_a, child_b, child_c]) v b
        (cfg_X (the_settings demo_X_train [0, 2] demo_X_validation [3]))
        (cfg_y (the_settings demo_X_train [0, 2] demo_X_validation [3])) \<and>
      labelled_rows (demo_world [child_a, child_b, child_c]) v b
        (cfg_X_valid (the_settings demo_X_train [0, 2] demo_X_validation [3]))
        (cfg_y_valid (the_settings demo_X_train [0, 2] demo_X_validation [3]))) \<and>
   (6, C_submit demo_experiment demo_config True, None)
     \<in> set (fst (notebook (demo_world [child_a, child_b, child_c]))) \<and>
   (\<exists>s'. AutoMLConfig (demo_world [child_a, child_b, child_c]) s' = Inr demo_config \<and>
      length (rows (cfg_X s')) = length (cfg_y s') \<and>
      length (rows (cfg_X_valid s')) = length (cfg_y_valid s')) \<and>
   (14, C_predict demo_model demo_X_test, None)
     \<in> set (fst (notebook (demo_world [child_a, child_b, child_c]))) \<and>
   (\<exists>b v. fetch_20newsgroups (demo_world [child_a, child_b, child_c]) fetch_test_args = Inr b \<and>
      HashingVectorizer (demo_world [child_a, child_b, child_c]) test_vectorizer_params = Inr v \<and>
      length (rows demo_X_test) = length (target b) \<and>
      labelled_rows (demo_world [child_a, child_b, child_c]) v b demo_X_test (target b)) \<and>
   (14, C_ConfusionMatrix [''sci.space'', ''talk.religion.misc''] [''sci.space'', ''sci.space''],
     None) \<in> set (fst (notebook (demo_world [child_a, child_b, child_c]))) \<and>
   (\<exists>b. fetch_20newsgroups (demo_world [child_a, child_b, child_c]) fetch_test_args = Inr b \<and>
      label_strings (target b) = Inr [''sci.space'', ''talk.religion.misc''] \<and>
      length [''sci.space'', ''talk.religion.misc''] = length (target b))"
proof -
  let ?w = "demo_world [child_a, child_b, child_c]"
  note th = rows_and_labels_aligned [where w = ?w and X_train = demo_X_train
      and X_validation = demo_X_validation and y_train = "[0, 2]" and y_validation = "[3]"
      and c = 5 and s = "the_settings demo_X_train [0, 2] demo_X_validation [3]" and out = None
      and c' = 6 and ex = demo_experiment and cfg = demo_config and show_output = True
      and out' = None and c'' = 14 and m = demo_model and X_test = demo_X_test and out'' = None
      and c''' = 14 and yt = "[''sci.space'', ''talk.religion.misc'']"
      and yp = "[''sci.space'', ''sci.space'']" and out''' = None]
  from th sklearn_contract_demo [of "[child_a, child_b, child_c]"]
    cell_sparse_data_demo [of "[child_a, child_b, child_c]"]
    submit_demo [of "[child_a, child_b, child_c]"] notebook_demo_events(4,5,6)
  show ?thesis
    by blast
qed

text \<open>The claim as written fails: nothing in the notebook enforces the alignment. With a
  split that returns two training documents and one training label every cell runs, and a
  matrix of two rows is configured and submitted with a vector of one label.\<close>

theorem rows_not_enforced_counterexample:
  "snd (cell_sparse_data misaligned_world) = Inr (demo_X_train, demo_X_validation, [0], [3]) \<and>
   length (rows demo_X_train) = 2 \<and> length [0 :: int] = 1 \<and>
   (5, C_AutoMLConfig (the_settings demo_X_train [0] demo_X_validation [3]), None)
     \<in> set (fst (notebook misaligned_world)) \<and>
   (6, C_submit demo_experiment \<lparr>settings = the_settings demo_X_train [0] demo_X_validation [3]\<rparr>
      True, None) \<in> set (fst (notebook misaligned_world)) \<and>
   snd (notebook misaligned_world) = Inr ()"
proof (intro conjI)
  show "snd (cell_sparse_data misaligned_world) =
      Inr (demo_X_train, demo_X_validation, [0], [3])"
    by (simp add: misaligned_world_def cell_defs run_simps demo_defs train_vectorizer_params_def
        shape_def demo_X_train_def demo_X_validation_def)
  show "length (rows demo_X_train) = 2"
    by (simp add: demo_X_train_def)
  show "length [0 :: int] = 1"
    by simp
  show "(5, C_AutoMLConfig (the_settings demo_X_train [0] demo_X_validation [3]), None)
      \<in> set (fst (notebook misaligned_world))"
    by (simp add: misaligned_world_def notebook_def cell_defs run_simps demo_defs
        train_vectorizer_params_def test_vectorizer_params_def demo_X_train_def
        demo_X_validation_def)
  show "(6, C_submit demo_experiment
        \<lparr>settings = the_settings demo_X_train [0] demo_X_validation [3]\<rparr> True, None)
      \<in> set (fst (notebook misaligned_world))"
    by (simp add: misaligned_world_def notebook_def cell_defs run_simps demo_defs
        train_vectorizer_params_def test_vectorizer_params_def demo_X_train_def
        demo_X_validation_def demo_experiment_def demo_workspace_def)
  show "snd (notebook misaligned_world) = Inr ()"
    by (simp add: misaligned_world_def notebook_def cell_defs run_simps demo_defs)
qed

subsection \<open>The evaluation\<close>

lemma notebook_fetch:
  assumes "(c, C_fetch_20newsgroups a, out) \<in> set (fst (notebook w))"
  shows "c = 4 \<and> a = fetch_train_args \<or> c = 14 \<and> a = fetch_test_args"
proof (cases "(c, C_fetch_20newsgroups a, out) \<in> set (fst (prepare w))")
  case True
  from prepare_other_calls(4) [OF this] show ?thesis
    by simp
next
  case False
  have "call_name (ev_call (c, C_fetch_20newsgroups a, out)) \<in>
      {''transform'', ''predict'', ''ConfusionMatrix'', ''HashingVectorizer'', ''fetch_20newsgroups''}"
    by (simp add: ev_call_def)
  from notebook_test_events [OF assms False this] obtain m where
    "(c, C_fetch_20newsgroups a, out) \<in> set (fst (cell_test w m))"
    by blast
  from cell_test_events(5) [OF this] show ?thesis
    by simp
qed

lemma strings_aligned:
  assumes c: "sklearn_contract w" and m: "model_contract m"
    and b: "fetch_20newsgroups w fetch_test_args = Inr b"
    and X: "transform w v (data b) = Inr X_test"
    and p: "predict m X_test = Inr ypred"
    and yt: "label_strings (target b) = Inr yt"
    and yp: "label_strings ypred = Inr yp"
  shows "length yt = length (data b) \<and> length yp = length (data b) \<and>
     (\<forall>i<length (data b).
        list_getitem categories (target b ! i) = Inr (yt ! i) \<and>
        list_getitem categories (ypred ! i) = Inr (yp ! i) \<and>
        transform w v [data b ! i] = Inr \<lparr>n_cols = n_cols X_test, rows = [rows X_test ! i]\<rparr>)"
proof -
  from c b have len: "length (data b) = length (target b)"
    unfolding sklearn_contract_def by blast
  from c X have t: "length (rows X_test) = length (data b)"
    "\<forall>i<length (data b).
       transform w v [data b ! i] = Inr \<lparr>n_cols = n_cols X_test, rows = [rows X_test ! i]\<rparr>"
    unfolding sklearn_contract_def by blast+
  from m p have lp: "length ypred = length (rows X_test)"
    unfolding model_contract_def by blast
  have names: "length ss = length ys \<and>
      (\<forall>k<length ys. list_getitem categories (ys ! k) = Inr (ss ! k))"
    if "label_strings ys = Inr ss" for ys ss
  proof -
    from that have range: "\<forall>i\<in>set ys. - 4 \<le> i \<and> i \<le> 3"
      using label_strings_Inr_iff by blast
    have "list_getitem categories (ys ! k) = Inr (ss ! k)" if k: "k < length ys" for k
    proof -
      from range k have "- 4 \<le> ys ! k \<and> ys ! k \<le> 3"
        by (meson nth_mem)
      with k show ?thesis
        by (simp add: list_getitem_categories label_strings_Inr [OF \<open>label_strings ys = Inr ss\<close>])
    qed
    with label_strings_Inr [OF that] show ?thesis
      by simp
  qed
  from names [OF yt] names [OF yp] len lp t show ?thesis
    by simp
qed

text \<open>
  C7, as amended. The test data is fetched with the arguments of the training fetch but for
  \<^verbatim>\<open>subset='test'\<close> in place of \<^verbatim>\<open>subset='train'\<close>, over the same four categories, in the
  last cell, and it is vectorized with the parameters of the training vectorizer. Whenever
  the confusion matrix is built, its first argument is the list of the names of the test
  labels and its second the list of the names of the labels that the model returned by
  \<open>get_output\<close> of the submitted run predicts for the matrix of the test documents; given the
  contracts of scikit-learn and of the model, both lists have one entry per test document,
  entry \<open>i\<close> of each belonging to test document \<open>i\<close>. Whether a test document is also a
  training document is left to the dataset: the notebook asks for another subset and
  compares nothing.
\<close>

theorem evaluated_on_test_set:
  "fetch_test_args = fetch_train_args\<lparr>fetch_subset := ''test''\<rparr> \<and>
   fetch_subset fetch_train_args = ''train'' \<and>
   fetch_categories fetch_test_args = categories \<and> length categories = 4 \<and>
   test_vectorizer_params = train_vectorizer_params \<and>
   ((c, C_fetch_20newsgroups a, out) \<in> set (fst (notebook w)) \<longrightarrow>
      c = 4 \<and> a = fetch_train_args \<or> c = 14 \<and> a = fetch_test_args) \<and>
   ((c', C_ConfusionMatrix yt yp, out') \<in> set (fst (notebook w)) \<longrightarrow>
      (\<exists>ex cfg local_run best m b v X_test ypred.
         submit w ex cfg True = Inr local_run \<and> get_output local_run = Inr (best, m) \<and>
         fetch_20newsgroups w fetch_test_args = Inr b \<and>
         HashingVectorizer w test_vectorizer_params = Inr v \<and>
         transform w v (data b) = Inr X_test \<and> predict m X_test = Inr ypred \<and>
         label_strings (target b) = Inr yt \<and> label_strings ypred = Inr yp \<and>
         (sklearn_contract w \<and> model_contract m \<longrightarrow>
            length yt = length (data b) \<and> length yp = length (data b) \<and>
            (\<forall>i<length (data b).
               list_getitem categories (target b ! i) = Inr (yt ! i) \<and>
               list_getitem categories (ypred ! i) = Inr (yp ! i) \<and>
               transform w v [data b ! i] =
                 Inr \<lparr>n_cols = n_cols X_test, rows = [rows X_test ! i]\<rparr>))))"
proof -
  have 1: "fetch_test_args = fetch_train_args\<lparr>fetch_subset := ''test''\<rparr> \<and>
      fetch_subset fetch_train_args = ''train'' \<and>
      fetch_categories fetch_test_args = categories \<and> length categories = 4"
    by (simp add: fetch_test_args_def fetch_train_args_def categories_def)
  have 2: "c = 4 \<and> a = fetch_train_args \<or> c = 14 \<and> a = fetch_test_args"
    if "(c, C_fetch_20newsgroups a, out) \<in> set (fst (notebook w))"
    using that by (rule notebook_fetch)
  have 3: "\<exists>ex cfg local_run best m b v X_test ypred.
         submit w ex cfg True = Inr local_run \<and> get_output local_run = Inr (best, m) \<and>
         fetch_20newsgroups w fetch_test_args = Inr b \<and>
         HashingVectorizer w test_vectorizer_params = Inr v \<and>
         transform w v (data b) = Inr X_test \<and> predict m X_test = Inr ypred \<and>
         label_strings (target b) = Inr yt \<and> label_strings ypred = Inr yp \<and>
         (sklearn_contract w \<and> model_contract m \<longrightarrow>
            length yt = length (data b) \<and> length yp = length (data b) \<and>
            (\<forall>i<length (data b).
               list_getitem categories (target b ! i) = Inr (yt ! i) \<and>
               list_getitem categories (ypred ! i) = Inr (yp ! i) \<and>
               transform w v [data b ! i] =
                 Inr \<lparr>n_cols = n_cols X_test, rows = [rows X_test ! i]\<rparr>))"
    if "(c', C_ConfusionMatrix yt yp, out') \<in> set (fst (notebook w))"
  proof -
    from notebook_ConfusionMatrix [OF that] obtain ex cfg local_run best m b v X_test ypred where
      f: "submit w ex cfg True = Inr local_run" "get_output local_run = Inr (best, m)"
        "fetch_20newsgroups w fetch_test_args = Inr b"
        "HashingVectorizer w test_vectorizer_params = Inr v"
        "transform w v (data b) = Inr X_test" "predict m X_test = Inr ypred"
        "label_strings ypred = Inr yp" "label_strings (target b) = Inr yt"
      by blast
    have "length yt = length (data b) \<and> length yp = length (data b) \<and>
        (\<forall>i<length (data b).
           list_getitem categories (target b ! i) = Inr (yt ! i) \<and>
           list_getitem categories (ypred ! i) = Inr (yp ! i) \<and>
           transform w v [data b ! i] = Inr \<lparr>n_cols = n_cols X_test, rows = [rows X_test ! i]\<rparr>)"
      if "sklearn_contract w \<and> model_contract m"
      using that strings_aligned [OF _ _ f(3) f(5) f(6) f(8) f(7)] by blast
    with f show ?thesis
      by blast
  qed
  from 1 vectorizer_params_equal 2 3 show ?thesis
    by blast
qed

lemma model_contract_demo: "model_contract demo_model"
  by (simp add: model_contract_def demo_model_def)

lemma fetch_event_demo:
  "(14, C_fetch_20newsgroups fetch_test_args, None)
     \<in> set (fst (notebook (demo_world [child_a, child_b, child_c])))"
  by (simp add: notebook_def cell_defs run_simps demo_defs)

theorem evaluated_on_test_set_witness:
  "(14, C_fetch_20newsgroups fetch_test_args, None)
     \<in> set (fst (notebook (demo_world [child_a, child_b, child_c]))) \<and>
   (14, C_ConfusionMatrix [''sci.space'', ''talk.religion.misc''] [''sci.space'', ''sci.space''],
     None) \<in> set (fst (notebook (demo_world [child_a, child_b, child_c]))) \<and>
   sklearn_contract (demo_world [child_a, child_b, child_c]) \<and> model_contract demo_model \<and>
   (\<exists>b v X_test ypred.
      fetch_20newsgroups (demo_world [child_a, child_b, child_c]) fetch_test_args = Inr b \<and>
      transform (demo_world [child_a, child_b, child_c]) v (data b) = Inr X_test \<and>
      predict demo_model X_test = Inr ypred \<and>
      label_strings (target b) = Inr [''sci.space'', ''talk.religion.misc''] \<and>
      label_strings ypred = Inr [''sci.space'', ''sci.space''] \<and>
      length [''sci.space'', ''talk.religion.misc''] = length (data b) \<and>
      length [''sci.space'', ''sci.space''] = length (data b))"
proof -
  let ?w = "demo_world [child_a, child_b, child_c]"
  let ?yt = "[''sci.space'', ''talk.religion.misc'']"
  let ?yp = "[''sci.space'', ''sci.space'']"
  note th = evaluated_on_test_set [where w = ?w and c = 14 and a = fetch_test_args
      and out = None and c' = 14 and yt = ?yt and yp = ?yp and out' = None]
  have c: "sklearn_contract ?w"
    by (rule sklearn_contract_demo)
  from th notebook_demo_events(6)
  obtain ex cfg local_run best m b v X_test ypred where
    f: "submit ?w ex cfg True = Inr local_run" "get_output local_run = Inr (best, m)"
      "fetch_20newsgroups ?w fetch_test_args = Inr b"
      "transform ?w v (data b) = Inr X_test" "predict m X_test = Inr ypred"
      "label_strings (target b) = Inr ?yt" "label_strings ypred = Inr ?yp"
    and aligned: "sklearn_contract ?w \<and> model_contract m \<longrightarrow>
      length ?yt = length (data b) \<and> length ?yp = length (data b) \<and>
      (\<forall>i<length (data b).
         list_getitem categories (target b ! i) = Inr (?yt ! i) \<and>
         list_getitem categories (ypred ! i) = Inr (?yp ! i) \<and>
         transform ?w v [data b ! i] = Inr \<lparr>n_cols = n_cols X_test, rows = [rows X_test ! i]\<rparr>)"
    by blast
  from f(1) have "local_run = demo_run [child_a, child_b, child_c]"
    by (simp add: demo_world_def)
  with f(2) have m: "m = demo_model"
    by (simp add: demo_run_def)
  with aligned c model_contract_demo
  have "length ?yt = length (data b) \<and> length ?yp = length (data b)"
    by blast
  with f m have "\<exists>b v X_test ypred.
      fetch_20newsgroups ?w fetch_test_args = Inr b \<and>
      transform ?w v (data b) = Inr X_test \<and> predict demo_model X_test = Inr ypred \<and>
      label_strings (target b) = Inr ?yt \<and> label_strings ypred = Inr ?yp \<and>
      length ?yt = length (data b) \<and> length ?yp = length (data b)"
    by blast
  with fetch_event_demo notebook_demo_events(6) c model_contract_demo
  show ?thesis
    by blast
qed

text \<open>The claim as written fails where a post of the test subset and a post of the train
  subset have the same text, as two posts have that the removal of headers, footers and
  quotes leaves empty: every cell runs as before, and a document the model is evaluated on
  is a document it was trained on.\<close>

theorem test_set_overlap_counterexample:
  "fetch_20newsgroups overlap_world fetch_train_args =
     Inr \<lparr>data = [''god'', [], ''orbit''], target = [0, 2, 3]\<rparr> \<and>
   fetch_20newsgroups overlap_world fetch_test_args =
     Inr \<lparr>data = [[], ''faith''], target = [3, 1]\<rparr> \<and>
   (4, C_transform \<lparr>vec_params = train_vectorizer_params\<rparr> [''god'', []], None)
     \<in> set (fst (notebook overlap_world)) \<and>
   (14, C_transform \<lparr>vec_params = test_vectorizer_params\<rparr> [[], ''faith''], None)
     \<in> set (fst (notebook overlap_world)) \<and>
   (14, C_ConfusionMatrix [''sci.space'', ''talk.religion.misc''] [''sci.space'', ''sci.space''],
     None) \<in> set (fst (notebook overlap_world)) \<and>
   snd (notebook overlap_world) = Inr () \<and>
   [] \<in> set [''god'', []] \<inter> set [[], ''faith'']"
proof (intro conjI)
  show "fetch_20newsgroups overlap_world fetch_train_args =
      Inr \<lparr>data = [''god'', [], ''orbit''], target = [0, 2, 3]\<rparr>"
    by (simp add: overlap_world_def fetch_train_args_def)
  show "fetch_20newsgroups overlap_world fetch_test_args =
      Inr \<lparr>data = [[], ''faith''], target = [3, 1]\<rparr>"
    by (simp add: overlap_world_def fetch_test_args_def)
  show "(4, C_transform \<lparr>vec_params = train_vectorizer_params\<rparr> [''god'', []], None)
      \<in> set (fst (notebook overlap_world))"
    by (simp add: overlap_world_def notebook_def cell_defs run_simps demo_defs
        train_vectorizer_params_def test_vectorizer_params_def)
  show "(14, C_transform \<lparr>vec_params = test_vectorizer_params\<rparr> [[], ''faith''], None)
      \<in> set (fst (notebook overlap_world))"
    by (simp add: overlap_world_def notebook_def cell_defs run_simps demo_defs
        train_vectorizer_params_def test_vectorizer_params_def)
  show "(14, C_ConfusionMatrix [''sci.space'', ''talk.religion.misc'']
        [''sci.space'', ''sci.space''], None) \<in> set (fst (notebook overlap_world))"
    by (simp add: overlap_world_def notebook_def cell_defs run_simps demo_defs
        train_vectorizer_params_def test_vectorizer_params_def)
  show "snd (notebook overlap_world) = Inr ()"
    by (simp add: overlap_world_def notebook_def cell_defs run_simps demo_defs)
  show "[] \<in> set [''god'', []] \<inter> set [[], ''faith'']"
    by simp
qed

end
